theory Spec2Isabelle
  imports Complex_Main
begin

section \<open>Column values\<close>

text \<open>
  The service stores four tables (\<^verbatim>\<open>models.py\<close>) and serves them through one handler per
  operation (\<^verbatim>\<open>app.py\<close>). Python integers are unbounded, so they are \<^typ>\<open>int\<close>; the
  store takes only the integers of 64 signed bits (\<open>sqlite_int\<close> below).
  Float, date and timestamp values are only stored and handed back, never computed with.
  A float is a finite value (a \<^typ>\<open>real\<close> here), an infinity or NaN; the one thing the
  store does to a float is to keep NaN as NULL (\<open>store_float\<close> below). A date is its
  three components and a timestamp is a number of seconds.
\<close>

datatype pyfloat = Finite real | PosInf | NegInf | NaN

datatype date = Date int int int

type_synonym datetime = int

section \<open>Tables (models.py)\<close>

text \<open>
  A column declared \<^verbatim>\<open>nullable=True\<close> (or left at the default for a non-key column)
  holds an option. The attributes of a \<^verbatim>\<open>Workout\<close> object that the update handler assigns
  by \<^verbatim>\<open>setattr\<close> can hold \<^verbatim>\<open>None\<close> in memory even where the column is declared
  \<^verbatim>\<open>nullable=False\<close>; for these the constraint is the predicate \<open>workout_not_null\<close>, checked
  when the session is committed.
\<close>

record User =
  u_id :: int
  u_name :: string
  u_email :: string
  u_google_id :: "string option"
  u_created_at :: "datetime option"

record Workout =
  w_id :: int
  w_user_id :: int
  w_type :: "string option"
  w_duration_min :: "int option"
  w_distance_km :: "pyfloat option"
  w_avg_pace :: "pyfloat option"
  w_date :: "date option"
  w_is_starred :: "bool option"

record Exercise =
  e_id :: int
  e_workout_id :: int
  e_name :: string
  e_sets :: int
  e_reps :: int
  e_weight :: pyfloat

record Meal =
  m_id :: int
  m_user_id :: int
  m_name :: string
  m_calories :: int
  m_protein :: pyfloat
  m_carbs :: pyfloat
  m_fat :: pyfloat
  m_date :: date

text \<open>The database: each table is the list of its rows in rowid order.\<close>

record store =
  users :: "User list"
  workouts :: "Workout list"
  exercises :: "Exercise list"
  meals :: "Meal list"

definition empty_store :: store where
  "empty_store = \<lparr>users = [], workouts = [], exercises = [], meals = []\<rparr>"

section \<open>Request schemas (app.py)\<close>

text \<open>
  A request is the schema object that the handler receives, after the framework has
  validated the body: a required field holds a value, an \<^verbatim>\<open>Optional\<close> one may be
  \<^verbatim>\<open>None\<close>, and a field the schema does not declare is not there.
\<close>

record UserCreate =
  uc_name :: string
  uc_email :: string
  uc_google_id :: "string option"

record WorkoutCreate =
  wc_user_id :: int
  wc_type :: string
  wc_duration_min :: int
  wc_distance_km :: "pyfloat option"
  wc_avg_pace :: "pyfloat option"
  wc_date :: date
  wc_is_starred :: bool

text \<open>
  Every field of \<^verbatim>\<open>WorkoutUpdate\<close> is \<^verbatim>\<open>Optional[...] = None\<close>: a request may leave it
  out (\<open>Unset\<close>) or supply it, and a supplied value may be \<^verbatim>\<open>null\<close>.
  \<^verbatim>\<open>model_dump(exclude_unset=True)\<close> keeps exactly the supplied fields.

  The field \<^verbatim>\<open>date\<close> is the exception. In \<^verbatim>\<open>date: Optional[date] = None\<close> the class
  body binds the name \<^verbatim>\<open>date\<close> to \<^verbatim>\<open>None\<close> before the annotation is evaluated, so
  the annotation is \<^verbatim>\<open>Optional[None]\<close>: the only value the schema admits for it is
  \<^verbatim>\<open>null\<close>, which is the one value of \<^typ>\<open>unit\<close> here. A request that carries a date
  is refused by the validation and reaches no handler.
\<close>

datatype 'a field = Unset | Supplied 'a

record WorkoutUpdate =
  wu_type :: "string option field"
  wu_duration_min :: "int option field"
  wu_distance_km :: "pyfloat option field"
  wu_avg_pace :: "pyfloat option field"
  wu_date :: "unit field"
  wu_is_starred :: "bool option field"

record ExerciseCreate =
  ec_workout_id :: int
  ec_name :: string
  ec_sets :: int
  ec_reps :: int
  ec_weight :: pyfloat

record MealCreate =
  mc_user_id :: int
  mc_name :: string
  mc_calories :: int
  mc_protein :: pyfloat
  mc_carbs :: pyfloat
  mc_fat :: pyfloat
  mc_date :: date

section \<open>Outcomes\<close>

text \<open>
  A handler returns its value or raises. It raises \<^verbatim>\<open>HTTPException\<close> with a status code
  and a detail itself; \<^verbatim>\<open>IntegrityError\<close> is what \<^verbatim>\<open>db.commit()\<close> raises when the store
  refuses a row (a UNIQUE or NOT NULL constraint of \<^verbatim>\<open>models.py\<close>), and
  \<^verbatim>\<open>OverflowError\<close> is what the database driver raises when a statement binds an
  integer that does not fit 64 signed bits; no handler catches either. A handler that
  changes the store returns the store with its outcome; when it
  raises, the session is closed without a commit and the store is the one it was given.
  What the framework then makes of the returned row or of the exception is not part of the
  handlers.
\<close>

datatype error = HTTPException int string | IntegrityError | OverflowError

abbreviation HTTP_400_BAD_REQUEST :: int where "HTTP_400_BAD_REQUEST \<equiv> 400"
abbreviation HTTP_404_NOT_FOUND :: int where "HTTP_404_NOT_FOUND \<equiv> 404"

section \<open>The store's operations\<close>

text \<open>The integers that a statement can bind and a column can hold.\<close>

definition sqlite_int :: "int \<Rightarrow> bool" where
  "sqlite_int n \<longleftrightarrow> - (2 ^ 63) \<le> n \<and> n < 2 ^ 63"

text \<open>
  \<^verbatim>\<open>query.filter(column == v).first()\<close> on an integer column: the first row of the table
  whose column is \<open>v\<close>, or \<^verbatim>\<open>None\<close> when no row has it; when \<open>v\<close> cannot be bound the
  call raises. What a database holds in an integer column fits 64 bits, so a value that
  cannot be bound is the column of no row. (On a text column the call is \<^const>\<open>find\<close>.)
\<close>

definition first_by_key :: "('a \<Rightarrow> int) \<Rightarrow> int \<Rightarrow> 'a list \<Rightarrow> error + 'a option" where
  "first_by_key column v rows =
     (case find (\<lambda>x. column x = v) rows of
        Some row \<Rightarrow> Inr (Some row)
      | None \<Rightarrow> if sqlite_int v then Inr None else Inl OverflowError)"

text \<open>
  \<^verbatim>\<open>db.add(row); db.commit()\<close> binds the integers of the new row: the insert goes through
  when all of them fit.
\<close>

definition binds :: "int list \<Rightarrow> bool" where
  "binds vs \<longleftrightarrow> list_all sqlite_int vs"

text \<open>
  A float that is not a number is stored as NULL: a nullable column then reads back as
  \<^verbatim>\<open>None\<close>, and a NOT NULL column refuses the row.
\<close>

definition store_float :: "pyfloat option \<Rightarrow> pyfloat option" where
  "store_float v = (if v = Some NaN then None else v)"

text \<open>
  An integer primary key that the insert leaves out is the largest one in the table plus
  one, and 1 in an empty table. (This is what the store does while the largest key is below
  \<open>2 ^ 63 - 1\<close>, that is, until a table has been given that many rows; the model does not
  follow the store beyond.)
\<close>

definition next_id :: "int list \<Rightarrow> int" where
  "next_id ids = (case ids of [] \<Rightarrow> 1 | x # xs \<Rightarrow> fold max xs x + 1)"

text \<open>
  \<^verbatim>\<open>query.offset(skip).limit(limit)\<close>: the store reads a negative offset as 0 and a
  negative limit as no limit.
\<close>

definition offset_limit :: "int \<Rightarrow> int \<Rightarrow> 'a list \<Rightarrow> 'a list" where
  "offset_limit skip limit rows =
     (let rest = drop (nat skip) rows
      in if limit < 0 then rest else take (nat limit) rest)"

text \<open>A parameter with a default value: \<open>None\<close> is the request that leaves it out.\<close>

definition param_default :: "'a \<Rightarrow> 'a option \<Rightarrow> 'a" where
  "param_default d p = (case p of None \<Rightarrow> d | Some v \<Rightarrow> v)"

text \<open>\<^verbatim>\<open>if user_id:\<close> on an \<^verbatim>\<open>Optional[int]\<close>: \<^verbatim>\<open>None\<close> and \<^verbatim>\<open>0\<close> are both false.\<close>

definition truthy :: "int option \<Rightarrow> bool" where
  "truthy p = (case p of None \<Rightarrow> False | Some n \<Rightarrow> n \<noteq> 0)"

text \<open>
  \<^verbatim>\<open>query.all()\<close> runs the statement: it binds the value of the filter, when the handler
  added one, then the limit and the offset, and returns the rows when all of them fit.
\<close>

definition filter_params :: "int option \<Rightarrow> int list" where
  "filter_params p = (case p of None \<Rightarrow> [] | Some v \<Rightarrow> if truthy p then [v] else [])"

definition all_rows :: "int list \<Rightarrow> 'a list \<Rightarrow> error + 'a list" where
  "all_rows params rows = (if binds params then Inr rows else Inl OverflowError)"

text \<open>NOT NULL columns of \<^verbatim>\<open>workouts\<close> that an object's attributes may violate.\<close>

definition workout_not_null :: "Workout \<Rightarrow> bool" where
  "workout_not_null w \<longleftrightarrow> w_type w \<noteq> None \<and> w_duration_min w \<noteq> None \<and> w_date w \<noteq> None"

text \<open>
  The UNIQUE constraints of \<^verbatim>\<open>users\<close>: \<^verbatim>\<open>email\<close>, and \<^verbatim>\<open>google_id\<close> where it is not
  NULL (NULLs never collide).
\<close>

definition user_unique :: "User \<Rightarrow> User list \<Rightarrow> bool" where
  "user_unique u rows \<longleftrightarrow>
     (\<forall>x \<in> set rows. u_email x \<noteq> u_email u) \<and>
     (u_google_id u = None \<or> (\<forall>x \<in> set rows. u_google_id x \<noteq> u_google_id u))"

text \<open>
  \<^verbatim>\<open>db.delete(obj)\<close> with the relationships' \<^verbatim>\<open>cascade="all, delete-orphan"\<close>: the
  session loads the object's children through the relationship, deletes each of them the
  same way, and deletes every row by its primary key.
\<close>

definition db_delete_exercise :: "Exercise \<Rightarrow> store \<Rightarrow> store" where
  "db_delete_exercise e s = s\<lparr>exercises := filter (\<lambda>x. e_id x \<noteq> e_id e) (exercises s)\<rparr>"

definition db_delete_meal :: "Meal \<Rightarrow> store \<Rightarrow> store" where
  "db_delete_meal m s = s\<lparr>meals := filter (\<lambda>x. m_id x \<noteq> m_id m) (meals s)\<rparr>"

definition db_delete_workout :: "Workout \<Rightarrow> store \<Rightarrow> store" where
  "db_delete_workout w s =
     (let s1 = fold db_delete_exercise (filter (\<lambda>e. e_workout_id e = w_id w) (exercises s)) s
      in s1\<lparr>workouts := filter (\<lambda>x. w_id x \<noteq> w_id w) (workouts s1)\<rparr>)"

definition db_delete_user :: "User \<Rightarrow> store \<Rightarrow> store" where
  "db_delete_user u s =
     (let s1 = fold db_delete_workout (filter (\<lambda>w. w_user_id w = u_id u) (workouts s)) s;
          s2 = fold db_delete_meal (filter (\<lambda>m. m_user_id m = u_id u) (meals s)) s1
      in s2\<lparr>users := filter (\<lambda>x. u_id x \<noteq> u_id u) (users s2)\<rparr>)"

section \<open>User endpoints\<close>

definition create_user :: "UserCreate \<Rightarrow> datetime \<Rightarrow> store \<Rightarrow> (error + User) \<times> store" where
  "create_user user now s =
     (case find (\<lambda>x. u_email x = uc_email user) (users s) of
        Some existing_user \<Rightarrow>
          (Inl (HTTPException HTTP_400_BAD_REQUEST ''Email already registered''), s)
      | None \<Rightarrow>
          (let db_user = \<lparr>u_id = next_id (map u_id (users s)), u_name = uc_name user,
                          u_email = uc_email user, u_google_id = uc_google_id user,
                          u_created_at = Some now\<rparr>
           in if user_unique db_user (users s)
              then (Inr db_user, s\<lparr>users := users s @ [db_user]\<rparr>)
              else (Inl IntegrityError, s)))"

definition get_users :: "int option \<Rightarrow> int option \<Rightarrow> store \<Rightarrow> error + User list" where
  "get_users skip limit s =
     all_rows [param_default 100 limit, param_default 0 skip]
       (offset_limit (param_default 0 skip) (param_default 100 limit) (users s))"

definition get_user :: "int \<Rightarrow> store \<Rightarrow> error + User" where
  "get_user user_id s =
     (case first_by_key u_id user_id (users s) of
        Inl e \<Rightarrow> Inl e
      | Inr None \<Rightarrow> Inl (HTTPException HTTP_404_NOT_FOUND ''User not found'')
      | Inr (Some user) \<Rightarrow> Inr user)"

definition delete_user :: "int \<Rightarrow> store \<Rightarrow> (error + unit) \<times> store" where
  "delete_user user_id s =
     (case first_by_key u_id user_id (users s) of
        Inl e \<Rightarrow> (Inl e, s)
      | Inr None \<Rightarrow> (Inl (HTTPException HTTP_404_NOT_FOUND ''User not found''), s)
      | Inr (Some user) \<Rightarrow> (Inr (), db_delete_user user s))"

section \<open>Workout endpoints\<close>

definition create_workout :: "WorkoutCreate \<Rightarrow> store \<Rightarrow> (error + Workout) \<times> store" where
  "create_workout workout s =
     (case first_by_key u_id (wc_user_id workout) (users s) of
        Inl e \<Rightarrow> (Inl e, s)
      | Inr None \<Rightarrow> (Inl (HTTPException HTTP_404_NOT_FOUND ''User not found''), s)
      | Inr (Some user) \<Rightarrow>
          (let db_workout = \<lparr>w_id = next_id (map w_id (workouts s)),
                             w_user_id = wc_user_id workout,
                             w_type = Some (wc_type workout),
                             w_duration_min = Some (wc_duration_min workout),
                             w_distance_km = store_float (wc_distance_km workout),
                             w_avg_pace = store_float (wc_avg_pace workout),
                             w_date = Some (wc_date workout),
                             w_is_starred = Some (wc_is_starred workout)\<rparr>
           in if \<not> binds [wc_user_id workout, wc_duration_min workout]
              then (Inl OverflowError, s)
              else if workout_not_null db_workout
              then (Inr db_workout, s\<lparr>workouts := workouts s @ [db_workout]\<rparr>)
              else (Inl IntegrityError, s)))"

text \<open>The query that a list handler builds before it pages: filtered when the filter is true.\<close>

definition workouts_query :: "int option \<Rightarrow> store \<Rightarrow> Workout list" where
  "workouts_query user_id s =
     (let query = workouts s
      in if truthy user_id then filter (\<lambda>w. Some (w_user_id w) = user_id) query else query)"

definition get_workouts ::
  "int option \<Rightarrow> int option \<Rightarrow> int option \<Rightarrow> store \<Rightarrow> error + Workout list" where
  "get_workouts user_id skip limit s =
     all_rows (filter_params user_id @ [param_default 100 limit, param_default 0 skip])
       (offset_limit (param_default 0 skip) (param_default 100 limit)
          (workouts_query user_id s))"

definition get_workout :: "int \<Rightarrow> store \<Rightarrow> error + Workout" where
  "get_workout workout_id s =
     (case first_by_key w_id workout_id (workouts s) of
        Inl e \<Rightarrow> Inl e
      | Inr None \<Rightarrow> Inl (HTTPException HTTP_404_NOT_FOUND ''Workout not found'')
      | Inr (Some workout) \<Rightarrow> Inr workout)"

text \<open>
  The items of \<^verbatim>\<open>update_data\<close>, in the order of the schema's fields, and the
  \<^verbatim>\<open>setattr\<close> that the loop runs on each. The commit then writes the assigned
  attributes: it binds them first, which raises when an integer among them does not fit,
  and the store refuses the row when a NOT NULL column is left without a value.
  \<^verbatim>\<open>db.refresh\<close> reads the row back, so an attribute ends as the store keeps it:
  \<open>stored_item\<close> is the value that an item leaves in the row.
\<close>

datatype item =
    Item_type "string option"
  | Item_duration_min "int option"
  | Item_distance_km "pyfloat option"
  | Item_avg_pace "pyfloat option"
  | Item_date "date option"
  | Item_is_starred "bool option"

definition dump_field :: "('a \<Rightarrow> item) \<Rightarrow> 'a field \<Rightarrow> item list" where
  "dump_field key f = (case f of Unset \<Rightarrow> [] | Supplied v \<Rightarrow> [key v])"

definition model_dump_exclude_unset :: "WorkoutUpdate \<Rightarrow> item list" where
  "model_dump_exclude_unset u =
     dump_field Item_type (wu_type u) @
     dump_field Item_duration_min (wu_duration_min u) @
     dump_field Item_distance_km (wu_distance_km u) @
     dump_field Item_avg_pace (wu_avg_pace u) @
     dump_field (\<lambda>_. Item_date None) (wu_date u) @
     dump_field Item_is_starred (wu_is_starred u)"

fun setattr :: "item \<Rightarrow> Workout \<Rightarrow> Workout" where
  "setattr (Item_type v) w = w\<lparr>w_type := v\<rparr>"
| "setattr (Item_duration_min v) w = w\<lparr>w_duration_min := v\<rparr>"
| "setattr (Item_distance_km v) w = w\<lparr>w_distance_km := v\<rparr>"
| "setattr (Item_avg_pace v) w = w\<lparr>w_avg_pace := v\<rparr>"
| "setattr (Item_date v) w = w\<lparr>w_date := v\<rparr>"
| "setattr (Item_is_starred v) w = w\<lparr>w_is_starred := v\<rparr>"

fun stored_item :: "item \<Rightarrow> item" where
  "stored_item (Item_distance_km v) = Item_distance_km (store_float v)"
| "stored_item (Item_avg_pace v) = Item_avg_pace (store_float v)"
| "stored_item i = i"

fun item_binds :: "item \<Rightarrow> bool" where
  "item_binds (Item_duration_min (Some d)) = sqlite_int d"
| "item_binds _ = True"

definition update_workout ::
  "int \<Rightarrow> WorkoutUpdate \<Rightarrow> store \<Rightarrow> (error + Workout) \<times> store" where
  "update_workout workout_id workout_update s =
     (case first_by_key w_id workout_id (workouts s) of
        Inl e \<Rightarrow> (Inl e, s)
      | Inr None \<Rightarrow> (Inl (HTTPException HTTP_404_NOT_FOUND ''Workout not found''), s)
      | Inr (Some workout) \<Rightarrow>
          (let update_data = model_dump_exclude_unset workout_update;
               workout' = fold setattr (map stored_item update_data) workout
           in if \<not> list_all item_binds update_data
              then (Inl OverflowError, s)
              else if workout_not_null workout'
              then (Inr workout',
                    s\<lparr>workouts := map (\<lambda>x. if w_id x = w_id workout then workout' else x)
                                       (workouts s)\<rparr>)
              else (Inl IntegrityError, s)))"

definition delete_workout :: "int \<Rightarrow> store \<Rightarrow> (error + unit) \<times> store" where
  "delete_workout workout_id s =
     (case first_by_key w_id workout_id (workouts s) of
        Inl e \<Rightarrow> (Inl e, s)
      | Inr None \<Rightarrow> (Inl (HTTPException HTTP_404_NOT_FOUND ''Workout not found''), s)
      | Inr (Some workout) \<Rightarrow> (Inr (), db_delete_workout workout s))"

section \<open>Exercise endpoints\<close>

definition create_exercise :: "ExerciseCreate \<Rightarrow> store \<Rightarrow> (error + Exercise) \<times> store" where
  "create_exercise exercise s =
     (case first_by_key w_id (ec_workout_id exercise) (workouts s) of
        Inl e \<Rightarrow> (Inl e, s)
      | Inr None \<Rightarrow> (Inl (HTTPException HTTP_404_NOT_FOUND ''Workout not found''), s)
      | Inr (Some workout) \<Rightarrow>
          (let db_exercise = \<lparr>e_id = next_id (map e_id (exercises s)),
                              e_workout_id = ec_workout_id exercise,
                              e_name = ec_name exercise, e_sets = ec_sets exercise,
                              e_reps = ec_reps exercise, e_weight = ec_weight exercise\<rparr>
           in if \<not> binds [ec_workout_id exercise, ec_sets exercise, ec_reps exercise]
              then (Inl OverflowError, s)
              else if ec_weight exercise = NaN
              then (Inl IntegrityError, s)
              else (Inr db_exercise, s\<lparr>exercises := exercises s @ [db_exercise]\<rparr>)))"

definition exercises_query :: "int option \<Rightarrow> store \<Rightarrow> Exercise list" where
  "exercises_query workout_id s =
     (let query = exercises s
      in if truthy workout_id then filter (\<lambda>e. Some (e_workout_id e) = workout_id) query
         else query)"

definition get_exercises ::
  "int option \<Rightarrow> int option \<Rightarrow> int option \<Rightarrow> store \<Rightarrow> error + Exercise list" where
  "get_exercises workout_id skip limit s =
     all_rows (filter_params workout_id @ [param_default 100 limit, param_default 0 skip])
       (offset_limit (param_default 0 skip) (param_default 100 limit)
          (exercises_query workout_id s))"

definition delete_exercise :: "int \<Rightarrow> store \<Rightarrow> (error + unit) \<times> store" where
  "delete_exercise exercise_id s =
     (case first_by_key e_id exercise_id (exercises s) of
        Inl e \<Rightarrow> (Inl e, s)
      | Inr None \<Rightarrow> (Inl (HTTPException HTTP_404_NOT_FOUND ''Exercise not found''), s)
      | Inr (Some exercise) \<Rightarrow> (Inr (), db_delete_exercise exercise s))"

section \<open>Meal endpoints\<close>

definition create_meal :: "MealCreate \<Rightarrow> store \<Rightarrow> (error + Meal) \<times> store" where
  "create_meal meal s =
     (case first_by_key u_id (mc_user_id meal) (users s) of
        Inl e \<Rightarrow> (Inl e, s)
      | Inr None \<Rightarrow> (Inl (HTTPException HTTP_404_NOT_FOUND ''User not found''), s)
      | Inr (Some user) \<Rightarrow>
          (let db_meal = \<lparr>m_id = next_id (map m_id (meals s)), m_user_id = mc_user_id meal,
                          m_name = mc_name meal, m_calories = mc_calories meal,
                          m_protein = mc_protein meal, m_carbs = mc_carbs meal,
                          m_fat = mc_fat meal, m_date = mc_date meal\<rparr>
           in if \<not> binds [mc_user_id meal, mc_calories meal]
              then (Inl OverflowError, s)
              else if NaN \<in> set [mc_protein meal, mc_carbs meal, mc_fat meal]
              then (Inl IntegrityError, s)
              else (Inr db_meal, s\<lparr>meals := meals s @ [db_meal]\<rparr>)))"

definition meals_query :: "int option \<Rightarrow> store \<Rightarrow> Meal list" where
  "meals_query user_id s =
     (let query = meals s
      in if truthy user_id then filter (\<lambda>m. Some (m_user_id m) = user_id) query else query)"

definition get_meals ::
  "int option \<Rightarrow> int option \<Rightarrow> int option \<Rightarrow> store \<Rightarrow> error + Meal list" where
  "get_meals user_id skip limit s =
     all_rows (filter_params user_id @ [param_default 100 limit, param_default 0 skip])
       (offset_limit (param_default 0 skip) (param_default 100 limit)
          (meals_query user_id s))"

definition get_meal :: "int \<Rightarrow> store \<Rightarrow> error + Meal" where
  "get_meal meal_id s =
     (case first_by_key m_id meal_id (meals s) of
        Inl e \<Rightarrow> Inl e
      | Inr None \<Rightarrow> Inl (HTTPException HTTP_404_NOT_FOUND ''Meal not found'')
      | Inr (Some meal) \<Rightarrow> Inr meal)"

definition delete_meal :: "int \<Rightarrow> store \<Rightarrow> (error + unit) \<times> store" where
  "delete_meal meal_id s =
     (case first_by_key m_id meal_id (meals s) of
        Inl e \<Rightarrow> (Inl e, s)
      | Inr None \<Rightarrow> (Inl (HTTPException HTTP_404_NOT_FOUND ''Meal not found''), s)
      | Inr (Some meal) \<Rightarrow> (Inr (), db_delete_meal meal s))"

section \<open>Consistency of a store\<close>

text \<open>
  What the database engine keeps true of every table, from the declarations of
  \<^verbatim>\<open>models.py\<close>: primary keys are distinct, \<^verbatim>\<open>users.email\<close> is unique,
  \<^verbatim>\<open>users.google_id\<close> is unique among the rows where it is not NULL, and the NOT NULL
  columns of \<^verbatim>\<open>workouts\<close> hold a value.
\<close>

definition constraints_ok :: "store \<Rightarrow> bool" where
  "constraints_ok s \<longleftrightarrow>
     distinct (map u_id (users s)) \<and> distinct (map w_id (workouts s)) \<and>
     distinct (map e_id (exercises s)) \<and> distinct (map m_id (meals s)) \<and>
     distinct (map u_email (users s)) \<and>
     distinct (filter (\<lambda>g. g \<noteq> None) (map u_google_id (users s))) \<and>
     (\<forall>w \<in> set (workouts s). workout_not_null w)"

text \<open>No orphan: every foreign key is the primary key of a stored parent.\<close>

definition no_orphans :: "store \<Rightarrow> bool" where
  "no_orphans s \<longleftrightarrow>
     (\<forall>w \<in> set (workouts s). \<exists>u \<in> set (users s). u_id u = w_user_id w) \<and>
     (\<forall>e \<in> set (exercises s). \<exists>w \<in> set (workouts s). w_id w = e_workout_id e) \<and>
     (\<forall>m \<in> set (meals s). \<exists>u \<in> set (users s). u_id u = m_user_id m)"

text \<open>A consistent store: the schema's constraints hold and no row is an orphan.\<close>

definition consistent :: "store \<Rightarrow> bool" where
  "consistent s \<longleftrightarrow> constraints_ok s \<and> no_orphans s"

text \<open>The stores that the handlers can produce, starting from the empty database.\<close>

inductive reachable :: "store \<Rightarrow> bool" where
  r_empty: "reachable empty_store"
| r_create_user: "reachable s \<Longrightarrow> reachable (snd (create_user user now s))"
| r_delete_user: "reachable s \<Longrightarrow> reachable (snd (delete_user user_id s))"
| r_create_workout: "reachable s \<Longrightarrow> reachable (snd (create_workout workout s))"
| r_update_workout: "reachable s \<Longrightarrow> reachable (snd (update_workout workout_id upd s))"
| r_delete_workout: "reachable s \<Longrightarrow> reachable (snd (delete_workout workout_id s))"
| r_create_exercise: "reachable s \<Longrightarrow> reachable (snd (create_exercise exercise s))"
| r_delete_exercise: "reachable s \<Longrightarrow> reachable (snd (delete_exercise exercise_id s))"
| r_create_meal: "reachable s \<Longrightarrow> reachable (snd (create_meal meal s))"
| r_delete_meal: "reachable s \<Longrightarrow> reachable (snd (delete_meal meal_id s))"

text \<open>
  What the pagination of a list operation promises of the page it returns from the rows of
  its query: at most \<open>limit\<close> rows when the limit is not negative, exactly the rows that
  follow the first \<open>skip\<close> ones in the same order (all of them when the limit is
  negative), and nothing when \<open>skip\<close> reaches the number of rows.
\<close>

definition is_page :: "int \<Rightarrow> int \<Rightarrow> 'a list \<Rightarrow> 'a list \<Rightarrow> bool" where
  "is_page skip limit rows page \<longleftrightarrow>
     (0 \<le> limit \<longrightarrow> int (length page) \<le> limit) \<and>
     length page = (if limit < 0 then length rows - nat skip
                    else min (nat limit) (length rows - nat skip)) \<and>
     (\<forall>i < length page. page ! i = rows ! (nat skip + i)) \<and>
     (int (length rows) \<le> skip \<longrightarrow> page = [])"

text \<open>The page takes in every row: nothing is skipped and the limit cuts nothing off.\<close>

definition covers :: "int \<Rightarrow> int \<Rightarrow> 'a list \<Rightarrow> bool" where
  "covers skip limit rows \<longleftrightarrow> skip \<le> 0 \<and> (limit < 0 \<or> int (length rows) \<le> limit)"

text \<open>
  What a partial update promises of a column: the supplied value, or the prior one when the
  request leaves the field out. A request is refused by the NOT NULL constraints when it
  supplies \<^verbatim>\<open>null\<close> for \<^verbatim>\<open>type\<close>, \<^verbatim>\<open>duration_min\<close> or \<^verbatim>\<open>date\<close>, and it cannot be
  bound when it supplies a \<^verbatim>\<open>duration_min\<close> that does not fit 64 bits.
\<close>

definition supplied_or :: "'a field \<Rightarrow> 'a \<Rightarrow> 'a" where
  "supplied_or f prior = (case f of Unset \<Rightarrow> prior | Supplied v \<Rightarrow> v)"

text \<open>The same of a float column, where a supplied NaN is kept as NULL.\<close>

definition stored_or :: "pyfloat option field \<Rightarrow> pyfloat option \<Rightarrow> pyfloat option" where
  "stored_or f prior = (case f of Unset \<Rightarrow> prior | Supplied v \<Rightarrow> store_float v)"

definition supplies_null :: "WorkoutUpdate \<Rightarrow> bool" where
  "supplies_null u \<longleftrightarrow>
     wu_type u = Supplied None \<or> wu_duration_min u = Supplied None \<or> wu_date u = Supplied ()"

definition duration_fits :: "WorkoutUpdate \<Rightarrow> bool" where
  "duration_fits u \<longleftrightarrow>
     (case wu_duration_min u of Supplied (Some d) \<Rightarrow> sqlite_int d | _ \<Rightarrow> True)"

text \<open>An optional parameter that a query can bind: it is left out or fits 64 bits.\<close>

definition fits :: "int option \<Rightarrow> bool" where
  "fits p \<longleftrightarrow> (case p of None \<Rightarrow> True | Some v \<Rightarrow> sqlite_int v)"

section \<open>Sample data\<close>

text \<open>Two users, each with one workout, one exercise in it and one meal.\<close>

definition ann :: User where
  "ann = \<lparr>u_id = 1, u_name = ''Ann'', u_email = ''ann@x.com'', u_google_id = Some ''g-ann'',
          u_created_at = Some 1704067200\<rparr>"

definition bob :: User where
  "bob = \<lparr>u_id = 2, u_name = ''Bob'', u_email = ''bob@x.com'', u_google_id = None,
          u_created_at = Some 1704153600\<rparr>"

definition run1 :: Workout where
  "run1 = \<lparr>w_id = 1, w_user_id = 1, w_type = Some ''run'', w_duration_min = Some 30,
           w_distance_km = Some (Finite 5), w_avg_pace = None, w_date = Some (Date 2024 1 1),
           w_is_starred = Some False\<rparr>"

definition lift2 :: Workout where
  "lift2 = \<lparr>w_id = 2, w_user_id = 2, w_type = Some ''lift'', w_duration_min = Some 45,
            w_distance_km = None, w_avg_pace = None, w_date = Some (Date 2024 1 2),
            w_is_starred = Some True\<rparr>"

definition pushup :: Exercise where
  "pushup = \<lparr>e_id = 1, e_workout_id = 1, e_name = ''pushup'', e_sets = 3, e_reps = 10,
             e_weight = Finite 0\<rparr>"

definition squat :: Exercise where
  "squat = \<lparr>e_id = 2, e_workout_id = 2, e_name = ''squat'', e_sets = 5, e_reps = 5,
            e_weight = Finite 80\<rparr>"

definition lunch :: Meal where
  "lunch = \<lparr>m_id = 1, m_user_id = 1, m_name = ''lunch'', m_calories = 600,
            m_protein = Finite 30, m_carbs = Finite 70, m_fat = Finite 20,
            m_date = Date 2024 1 1\<rparr>"

definition dinner :: Meal where
  "dinner = \<lparr>m_id = 2, m_user_id = 2, m_name = ''dinner'', m_calories = 800,
             m_protein = Finite 40, m_carbs = Finite 90, m_fat = Finite 30,
             m_date = Date 2024 1 2\<rparr>"

definition sample_store :: store where
  "sample_store = \<lparr>users = [ann, bob], workouts = [run1, lift2],
                    exercises = [pushup, squat], meals = [lunch, dinner]\<rparr>"

text \<open>
  Four update requests: one the store accepts, one that nulls a required column, one
  whose distance is not a number, and one whose duration does not fit 64 bits.
\<close>

definition star_and_rename :: WorkoutUpdate where
  "star_and_rename = \<lparr>wu_type = Supplied (Some ''trail run''), wu_duration_min = Unset,
     wu_distance_km = Supplied None, wu_avg_pace = Unset, wu_date = Unset,
     wu_is_starred = Supplied (Some True)\<rparr>"

definition null_type :: WorkoutUpdate where
  "null_type = \<lparr>wu_type = Supplied None, wu_duration_min = Unset, wu_distance_km = Unset,
     wu_avg_pace = Unset, wu_date = Unset, wu_is_starred = Unset\<rparr>"

definition nan_distance :: WorkoutUpdate where
  "nan_distance = \<lparr>wu_type = Unset, wu_duration_min = Unset,
     wu_distance_km = Supplied (Some NaN), wu_avg_pace = Unset, wu_date = Unset,
     wu_is_starred = Unset\<rparr>"

definition long_duration :: WorkoutUpdate where
  "long_duration = \<lparr>wu_type = Unset, wu_duration_min = Supplied (Some (2 ^ 63)),
     wu_distance_km = Unset, wu_avg_pace = Unset, wu_date = Unset, wu_is_starred = Unset\<rparr>"

text \<open>
  Create-user requests: Ann's, and one whose email differs from Ann's only in the case of
  a letter of the local part, with the same Google account and with none.
\<close>

definition req_ann :: UserCreate where
  "req_ann = \<lparr>uc_name = ''Ann'', uc_email = ''ann@x.com'', uc_google_id = Some ''g-ann''\<rparr>"

definition req_upper :: UserCreate where
  "req_upper = \<lparr>uc_name = ''Ann'', uc_email = ''Ann@x.com'', uc_google_id = Some ''g-ann''\<rparr>"

definition req_upper_plain :: UserCreate where
  "req_upper_plain = \<lparr>uc_name = ''Ann'', uc_email = ''Ann@x.com'', uc_google_id = None\<rparr>"

section \<open>Basic facts of queries\<close>

lemmas sample_defs = sample_store_def ann_def bob_def run1_def lift2_def pushup_def squat_def
  lunch_def dinner_def

lemma find_absent: "(\<forall>x \<in> set xs. \<not> P x) \<Longrightarrow> find P xs = None"
  by (simp add: find_None_iff)

lemma find_Some_hit: "find P xs = Some x \<Longrightarrow> P x \<and> x \<in> set xs"
  by (induction xs) (auto split: if_splits)

lemma find_map_replace:
  assumes "find (\<lambda>x. k x = a) xs = Some y" and "k y' = a"
  shows "find (\<lambda>x. k x = a) (map (\<lambda>x. if k x = a then y' else x) xs) = Some y'"
  using assms by (induction xs) (auto split: if_splits)

lemma first_by_key_found:
  "find (\<lambda>x. column x = v) rows = Some row \<Longrightarrow> first_by_key column v rows = Inr (Some row)"
  by (simp add: first_by_key_def)

lemma first_by_key_absent:
  "find (\<lambda>x. column x = v) rows = None \<Longrightarrow>
   first_by_key column v rows = (if sqlite_int v then Inr None else Inl OverflowError)"
  by (simp add: first_by_key_def)

lemma binds_filter_params:
  "binds (filter_params p @ [M, N]) \<longleftrightarrow> fits p \<and> sqlite_int N \<and> sqlite_int M"
  by (auto simp add: binds_def filter_params_def fits_def truthy_def sqlite_int_def
      split: option.splits)

lemma get_users_eq:
  "get_users skip limit s =
     (if sqlite_int (param_default 0 skip) \<and> sqlite_int (param_default 100 limit)
      then Inr (offset_limit (param_default 0 skip) (param_default 100 limit) (users s))
      else Inl OverflowError)"
  by (auto simp add: get_users_def all_rows_def binds_def)

lemma get_workouts_eq:
  "get_workouts user_id skip limit s =
     (if fits user_id \<and> sqlite_int (param_default 0 skip) \<and> sqlite_int (param_default 100 limit)
      then Inr (offset_limit (param_default 0 skip) (param_default 100 limit)
                  (workouts_query user_id s))
      else Inl OverflowError)"
  by (simp add: get_workouts_def all_rows_def binds_filter_params)

lemma get_exercises_eq:
  "get_exercises workout_id skip limit s =
     (if fits workout_id \<and> sqlite_int (param_default 0 skip) \<and>
         sqlite_int (param_default 100 limit)
      then Inr (offset_limit (param_default 0 skip) (param_default 100 limit)
                  (exercises_query workout_id s))
      else Inl OverflowError)"
  by (simp add: get_exercises_def all_rows_def binds_filter_params)

lemma get_meals_eq:
  "get_meals user_id skip limit s =
     (if fits user_id \<and> sqlite_int (param_default 0 skip) \<and> sqlite_int (param_default 100 limit)
      then Inr (offset_limit (param_default 0 skip) (param_default 100 limit)
                  (meals_query user_id s))
      else Inl OverflowError)"
  by (simp add: get_meals_def all_rows_def binds_filter_params)

lemma distinct_key_eq:
  assumes "distinct (map k xs)" and "x \<in> set xs" and "y \<in> set xs" and "k x = k y"
  shows "x = y"
  using assms by (auto simp add: distinct_map inj_on_def)

lemma offset_limit_is_page: "is_page skip limit rows (offset_limit skip limit rows)"
proof -
  have nth: "drop (nat skip) rows ! i = rows ! (nat skip + i)" if "i < length rows - nat skip" for i
    using that by (simp add: nth_drop)
  show ?thesis
  proof (cases "limit < 0")
    case True
    then show ?thesis
      by (simp add: is_page_def offset_limit_def nth)
  next
    case False
    then have "int (min (nat limit) (length rows - nat skip)) \<le> limit"
      by simp
    with False show ?thesis
      by (simp add: is_page_def offset_limit_def min.commute nth)
  qed
qed

lemma offset_limit_covers: "covers skip limit rows \<Longrightarrow> offset_limit skip limit rows = rows"
  by (auto simp add: covers_def offset_limit_def)

lemma offset_limit_subset: "set (offset_limit skip limit rows) \<subseteq> set rows"
  by (auto simp add: offset_limit_def Let_def dest: in_set_takeD in_set_dropD)

lemma page_of_filter:
  "\<exists>page. (Inr (offset_limit N M (filter P rows)) :: error + 'a list) = Inr page \<and>
     is_page N M (filter P rows) page \<and>
     (\<forall>x \<in> set page. x \<in> set rows \<and> P x) \<and>
     (covers N M (filter P rows) \<longrightarrow> page = filter P rows)"
proof (intro exI conjI impI ballI)
  show "(Inr (offset_limit N M (filter P rows)) :: error + 'a list) =
      Inr (offset_limit N M (filter P rows))"
    by (rule refl)
  show "is_page N M (filter P rows) (offset_limit N M (filter P rows))"
    by (rule offset_limit_is_page)
  show "offset_limit N M (filter P rows) = filter P rows" if "covers N M (filter P rows)"
    using that by (rule offset_limit_covers)
next
  fix x
  assume "x \<in> set (offset_limit N M (filter P rows))"
  with offset_limit_subset [of N M "filter P rows"] have x: "x \<in> set (filter P rows)"
    by (rule subsetD)
  from x show "x \<in> set rows"
    by simp
  from x show "P x"
    by simp
qed

section \<open>Listing\<close>

text \<open>
  C6. On the three list operations that take a parent-id filter, the filter value 0 gives
  the same result as no filter, whatever the store, the offset and the limit: the page of
  the whole table, or the error of an offset or a limit that cannot be bound.
\<close>

theorem filter_zero_is_no_filter:
  "get_workouts (Some 0) skip limit s = get_workouts None skip limit s \<and>
   get_exercises (Some 0) skip limit s = get_exercises None skip limit s \<and>
   get_meals (Some 0) skip limit s = get_meals None skip limit s \<and>
   get_workouts None skip limit s =
     all_rows [param_default 100 limit, param_default 0 skip]
       (offset_limit (param_default 0 skip) (param_default 100 limit) (workouts s)) \<and>
   get_exercises None skip limit s =
     all_rows [param_default 100 limit, param_default 0 skip]
       (offset_limit (param_default 0 skip) (param_default 100 limit) (exercises s)) \<and>
   get_meals None skip limit s =
     all_rows [param_default 100 limit, param_default 0 skip]
       (offset_limit (param_default 0 skip) (param_default 100 limit) (meals s))"
  by (simp add: get_workouts_def get_exercises_def get_meals_def truthy_def filter_params_def
      workouts_query_def exercises_query_def meals_query_def)

text \<open>
  C7. For every non-zero parent id supplied as a filter to the list operation on
  Workouts, Exercises or Meals, with the id, the offset and the limit within 64 signed
  bits, the result is the page, selected by the offset and the limit, of exactly the stored
  rows whose foreign key equals that id: every returned row is stored and has that foreign
  key, and when the page takes in all of them the result is all of them, in stored order.
  With no filter the result is the page of the rows of all parents. When the id, the offset
  or the limit does not fit 64 bits, the query raises \<^verbatim>\<open>OverflowError\<close>.
\<close>

theorem filtered_listing:
  assumes "p \<noteq> 0"
  shows "(sqlite_int p \<and> sqlite_int (param_default 0 skip) \<and>
          sqlite_int (param_default 100 limit) \<longrightarrow>
           (\<exists>page. get_workouts (Some p) skip limit s = Inr page \<and>
              is_page (param_default 0 skip) (param_default 100 limit)
                (filter (\<lambda>w. w_user_id w = p) (workouts s)) page \<and>
              (\<forall>w \<in> set page. w \<in> set (workouts s) \<and> w_user_id w = p) \<and>
              (covers (param_default 0 skip) (param_default 100 limit)
                 (filter (\<lambda>w. w_user_id w = p) (workouts s)) \<longrightarrow>
               page = filter (\<lambda>w. w_user_id w = p) (workouts s))) \<and>
           (\<exists>page. get_exercises (Some p) skip limit s = Inr page \<and>
              is_page (param_default 0 skip) (param_default 100 limit)
                (filter (\<lambda>e. e_workout_id e = p) (exercises s)) page \<and>
              (\<forall>e \<in> set page. e \<in> set (exercises s) \<and> e_workout_id e = p) \<and>
              (covers (param_default 0 skip) (param_default 100 limit)
                 (filter (\<lambda>e. e_workout_id e = p) (exercises s)) \<longrightarrow>
               page = filter (\<lambda>e. e_workout_id e = p) (exercises s))) \<and>
           (\<exists>page. get_meals (Some p) skip limit s = Inr page \<and>
              is_page (param_default 0 skip) (param_default 100 limit)
                (filter (\<lambda>m. m_user_id m = p) (meals s)) page \<and>
              (\<forall>m \<in> set page. m \<in> set (meals s) \<and> m_user_id m = p) \<and>
              (covers (param_default 0 skip) (param_default 100 limit)
                 (filter (\<lambda>m. m_user_id m = p) (meals s)) \<longrightarrow>
               page = filter (\<lambda>m. m_user_id m = p) (meals s)))) \<and>
         (\<not> (sqlite_int p \<and> sqlite_int (param_default 0 skip) \<and>
             sqlite_int (param_default 100 limit)) \<longrightarrow>
           get_workouts (Some p) skip limit s = Inl OverflowError \<and>
           get_exercises (Some p) skip limit s = Inl OverflowError \<and>
           get_meals (Some p) skip limit s = Inl OverflowError) \<and>
         (sqlite_int (param_default 0 skip) \<and> sqlite_int (param_default 100 limit) \<longrightarrow>
           (\<exists>page. get_workouts None skip limit s = Inr page \<and>
              is_page (param_default 0 skip) (param_default 100 limit) (workouts s) page \<and>
              (covers (param_default 0 skip) (param_default 100 limit) (workouts s) \<longrightarrow>
               page = workouts s)) \<and>
           (\<exists>page. get_exercises None skip limit s = Inr page \<and>
              is_page (param_default 0 skip) (param_default 100 limit) (exercises s) page \<and>
              (covers (param_default 0 skip) (param_default 100 limit) (exercises s) \<longrightarrow>
               page = exercises s)) \<and>
           (\<exists>page. get_meals None skip limit s = Inr page \<and>
              is_page (param_default 0 skip) (param_default 100 limit) (meals s) page \<and>
              (covers (param_default 0 skip) (param_default 100 limit) (meals s) \<longrightarrow>
               page = meals s))) \<and>
         (\<not> (sqlite_int (param_default 0 skip) \<and> sqlite_int (param_default 100 limit)) \<longrightarrow>
           get_workouts None skip limit s = Inl OverflowError \<and>
           get_exercises None skip limit s = Inl OverflowError \<and>
           get_meals None skip limit s = Inl OverflowError)"
proof -
  let ?N = "param_default 0 skip" and ?M = "param_default 100 limit"
  have wq: "workouts_query (Some p) s = filter (\<lambda>w. w_user_id w = p) (workouts s)"
    and eq: "exercises_query (Some p) s = filter (\<lambda>e. e_workout_id e = p) (exercises s)"
    and mq: "meals_query (Some p) s = filter (\<lambda>m. m_user_id m = p) (meals s)"
    using assms by (simp_all add: workouts_query_def exercises_query_def meals_query_def truthy_def)
  have fp: "fits (Some p) = sqlite_int p" "fits None"
    by (simp_all add: fits_def)
  have whole: "\<exists>page. (Inr (offset_limit ?N ?M rows) :: error + 'a list) = Inr page \<and>
      is_page ?N ?M rows page \<and> (covers ?N ?M rows \<longrightarrow> page = rows)" for rows :: "'a list"
    using page_of_filter [of ?N ?M "\<lambda>_. True" rows] by simp
  show ?thesis
  proof (intro conjI impI)
    assume ok: "sqlite_int p \<and> sqlite_int ?N \<and> sqlite_int ?M"
    then have gw: "get_workouts (Some p) skip limit s =
        Inr (offset_limit ?N ?M (filter (\<lambda>w. w_user_id w = p) (workouts s)))"
      and ge: "get_exercises (Some p) skip limit s =
        Inr (offset_limit ?N ?M (filter (\<lambda>e. e_workout_id e = p) (exercises s)))"
      and gm: "get_meals (Some p) skip limit s =
        Inr (offset_limit ?N ?M (filter (\<lambda>m. m_user_id m = p) (meals s)))"
      by (simp_all add: get_workouts_eq get_exercises_eq get_meals_eq wq eq mq fp)
    show "\<exists>page. get_workouts (Some p) skip limit s = Inr page \<and>
            is_page ?N ?M (filter (\<lambda>w. w_user_id w = p) (workouts s)) page \<and>
            (\<forall>w \<in> set page. w \<in> set (workouts s) \<and> w_user_id w = p) \<and>
            (covers ?N ?M (filter (\<lambda>w. w_user_id w = p) (workouts s)) \<longrightarrow>
             page = filter (\<lambda>w. w_user_id w = p) (workouts s))"
      unfolding gw by (rule page_of_filter)
    show "\<exists>page. get_exercises (Some p) skip limit s = Inr page \<and>
            is_page ?N ?M (filter (\<lambda>e. e_workout_id e = p) (exercises s)) page \<and>
            (\<forall>e \<in> set page. e \<in> set (exercises s) \<and> e_workout_id e = p) \<and>
            (covers ?N ?M (filter (\<lambda>e. e_workout_id e = p) (exercises s)) \<longrightarrow>
             page = filter (\<lambda>e. e_workout_id e = p) (exercises s))"
      unfolding ge by (rule page_of_filter)
    show "\<exists>page. get_meals (Some p) skip limit s = Inr page \<and>
            is_page ?N ?M (filter (\<lambda>m. m_user_id m = p) (meals s)) page \<and>
            (\<forall>m \<in> set page. m \<in> set (meals s) \<and> m_user_id m = p) \<and>
            (covers ?N ?M (filter (\<lambda>m. m_user_id m = p) (meals s)) \<longrightarrow>
             page = filter (\<lambda>m. m_user_id m = p) (meals s))"
      unfolding gm by (rule page_of_filter)
  next
    assume bad: "\<not> (sqlite_int p \<and> sqlite_int ?N \<and> sqlite_int ?M)"
    then show "get_workouts (Some p) skip limit s = Inl OverflowError"
      "get_exercises (Some p) skip limit s = Inl OverflowError"
      "get_meals (Some p) skip limit s = Inl OverflowError"
      by (simp_all add: get_workouts_eq get_exercises_eq get_meals_eq fp)
  next
    assume ok: "sqlite_int ?N \<and> sqlite_int ?M"
    then have gw: "get_workouts None skip limit s = Inr (offset_limit ?N ?M (workouts s))"
      and ge: "get_exercises None skip limit s = Inr (offset_limit ?N ?M (exercises s))"
      and gm: "get_meals None skip limit s = Inr (offset_limit ?N ?M (meals s))"
      by (simp_all add: get_workouts_eq get_exercises_eq get_meals_eq workouts_query_def
          exercises_query_def meals_query_def truthy_def fp)
    show "\<exists>page. get_workouts None skip limit s = Inr page \<and>
        is_page ?N ?M (workouts s) page \<and> (covers ?N ?M (workouts s) \<longrightarrow> page = workouts s)"
      unfolding gw by (rule whole)
    show "\<exists>page. get_exercises None skip limit s = Inr page \<and>
        is_page ?N ?M (exercises s) page \<and> (covers ?N ?M (exercises s) \<longrightarrow> page = exercises s)"
      unfolding ge by (rule whole)
    show "\<exists>page. get_meals None skip limit s = Inr page \<and>
        is_page ?N ?M (meals s) page \<and> (covers ?N ?M (meals s) \<longrightarrow> page = meals s)"
      unfolding gm by (rule whole)
  next
    assume bad: "\<not> (sqlite_int ?N \<and> sqlite_int ?M)"
    then show "get_workouts None skip limit s = Inl OverflowError"
      "get_exercises None skip limit s = Inl OverflowError"
      "get_meals None skip limit s = Inl OverflowError"
      by (simp_all add: get_workouts_eq get_exercises_eq get_meals_eq)
  qed
qed

lemma sample_tables:
  "users sample_store = [ann, bob]" "workouts sample_store = [run1, lift2]"
  "exercises sample_store = [pushup, squat]" "meals sample_store = [lunch, dinner]"
  by (simp_all add: sample_store_def)

theorem filtered_listing_witness:
  "(2::int) \<noteq> 0 \<and> sqlite_int 2 \<and>
   get_workouts (Some 2) None None sample_store = Inr [lift2] \<and>
   get_exercises (Some 2) None None sample_store = Inr [squat] \<and>
   get_meals (Some 2) None None sample_store = Inr [dinner] \<and>
   get_workouts None None None sample_store = Inr [run1, lift2] \<and>
   get_exercises None None None sample_store = Inr [pushup, squat] \<and>
   get_meals None None None sample_store = Inr [lunch, dinner]"
proof -
  have nz: "(2::int) \<noteq> 0"
    by simp
  have r: "sqlite_int 2" "sqlite_int (param_default 0 None)" "sqlite_int (param_default 100 None)"
    by (simp_all add: sqlite_int_def param_default_def)
  have c: "covers (param_default 0 None) (param_default 100 None) rows" if "length rows \<le> 2"
    for rows :: "'a list"
    using that by (simp add: covers_def param_default_def)
  have f: "filter (\<lambda>w. w_user_id w = 2) [run1, lift2] = [lift2]"
    "filter (\<lambda>e. e_workout_id e = 2) [pushup, squat] = [squat]"
    "filter (\<lambda>m. m_user_id m = 2) [lunch, dinner] = [dinner]"
    by (simp_all add: sample_defs)
  note inst = filtered_listing [OF nz, of None None sample_store, unfolded sample_tables f]
  from inst r obtain ws where "get_workouts (Some 2) None None sample_store = Inr ws"
    "covers (param_default 0 None) (param_default 100 None) [lift2] \<longrightarrow> ws = [lift2]"
    by blast
  then have 1: "get_workouts (Some 2) None None sample_store = Inr [lift2]"
    by (simp add: c)
  from inst r obtain es where "get_exercises (Some 2) None None sample_store = Inr es"
    "covers (param_default 0 None) (param_default 100 None) [squat] \<longrightarrow> es = [squat]"
    by blast
  then have 2: "get_exercises (Some 2) None None sample_store = Inr [squat]"
    by (simp add: c)
  from inst r obtain ms where "get_meals (Some 2) None None sample_store = Inr ms"
    "covers (param_default 0 None) (param_default 100 None) [dinner] \<longrightarrow> ms = [dinner]"
    by blast
  then have 3: "get_meals (Some 2) None None sample_store = Inr [dinner]"
    by (simp add: c)
  from inst r obtain ws' where "get_workouts None None None sample_store = Inr ws'"
    "covers (param_default 0 None) (param_default 100 None) [run1, lift2] \<longrightarrow>
     ws' = [run1, lift2]"
    by blast
  then have 4: "get_workouts None None None sample_store = Inr [run1, lift2]"
    by (simp add: c)
  from inst r obtain es' where "get_exercises None None None sample_store = Inr es'"
    "covers (param_default 0 None) (param_default 100 None) [pushup, squat] \<longrightarrow>
     es' = [pushup, squat]"
    by blast
  then have 5: "get_exercises None None None sample_store = Inr [pushup, squat]"
    by (simp add: c)
  from inst r obtain ms' where "get_meals None None None sample_store = Inr ms'"
    "covers (param_default 0 None) (param_default 100 None) [lunch, dinner] \<longrightarrow>
     ms' = [lunch, dinner]"
    by blast
  then have 6: "get_meals None None None sample_store = Inr [lunch, dinner]"
    by (simp add: c)
  from nz r(1) 1 2 3 4 5 6 show ?thesis
    by simp
qed

text \<open>
  Three requests at which the sentence without these conditions fails. No stored workout
  belongs to a user 0, yet the listing filtered by 0 returns the workouts of users 1 and
  2. User 1 has one workout, yet the listing filtered by 1 with the offset 1 returns
  none. And the listing filtered by \<open>2 ^ 63\<close> returns no result at all: it raises.
\<close>

theorem filter_zero_counterexample:
  "get_workouts (Some 0) None None sample_store = Inr [run1, lift2] \<and>
   w_user_id run1 \<noteq> 0 \<and>
   filter (\<lambda>w. w_user_id w = 0) (workouts sample_store) = [] \<and>
   get_workouts (Some 1) (Some 1) None sample_store = Inr [] \<and>
   filter (\<lambda>w. w_user_id w = 1) (workouts sample_store) = [run1] \<and>
   get_workouts (Some (2 ^ 63)) None None sample_store = Inl OverflowError"
  by (simp add: get_workouts_eq workouts_query_def truthy_def offset_limit_def fits_def
      sqlite_int_def param_default_def sample_defs)

text \<open>
  C8. For every list operation, every offset and every limit within 64 signed bits (and
  a filter value within them), the result is a page of the query's rows: it holds at most
  \<open>limit\<close> rows when the limit is not negative, its rows are the ones that follow the first
  \<open>skip\<close> rows in the stored order, and it is empty, not an error, when the offset is at
  or beyond the number of rows. A negative limit bounds nothing. An offset, a limit or a
  filter value that does not fit 64 bits makes the query raise \<^verbatim>\<open>OverflowError\<close>. An
  offset and a limit left out are 0 and 100.
\<close>

theorem pagination:
  "(sqlite_int (param_default 0 skip) \<and> sqlite_int (param_default 100 limit) \<longrightarrow>
      (\<exists>page. get_users skip limit s = Inr page \<and>
         is_page (param_default 0 skip) (param_default 100 limit) (users s) page) \<and>
      (fits user_id \<longrightarrow>
         (\<exists>page. get_workouts user_id skip limit s = Inr page \<and>
            is_page (param_default 0 skip) (param_default 100 limit)
              (workouts_query user_id s) page)) \<and>
      (fits workout_id \<longrightarrow>
         (\<exists>page. get_exercises workout_id skip limit s = Inr page \<and>
            is_page (param_default 0 skip) (param_default 100 limit)
              (exercises_query workout_id s) page)) \<and>
      (fits user_id \<longrightarrow>
         (\<exists>page. get_meals user_id skip limit s = Inr page \<and>
            is_page (param_default 0 skip) (param_default 100 limit)
              (meals_query user_id s) page))) \<and>
   (\<not> (sqlite_int (param_default 0 skip) \<and> sqlite_int (param_default 100 limit)) \<longrightarrow>
      get_users skip limit s = Inl OverflowError \<and>
      get_workouts user_id skip limit s = Inl OverflowError \<and>
      get_exercises workout_id skip limit s = Inl OverflowError \<and>
      get_meals user_id skip limit s = Inl OverflowError) \<and>
   (\<not> fits user_id \<longrightarrow>
      get_workouts user_id skip limit s = Inl OverflowError \<and>
      get_meals user_id skip limit s = Inl OverflowError) \<and>
   (\<not> fits workout_id \<longrightarrow> get_exercises workout_id skip limit s = Inl OverflowError) \<and>
   get_users None None s = get_users (Some 0) (Some 100) s \<and>
   get_workouts user_id None None s = get_workouts user_id (Some 0) (Some 100) s \<and>
   get_exercises workout_id None None s = get_exercises workout_id (Some 0) (Some 100) s \<and>
   get_meals user_id None None s = get_meals user_id (Some 0) (Some 100) s"
proof (intro conjI impI)
  let ?N = "param_default 0 skip" and ?M = "param_default 100 limit"
  assume ok: "sqlite_int ?N \<and> sqlite_int ?M"
  show "\<exists>page. get_users skip limit s = Inr page \<and> is_page ?N ?M (users s) page"
    using ok by (simp add: get_users_eq offset_limit_is_page)
  show "\<exists>page. get_workouts user_id skip limit s = Inr page \<and>
      is_page ?N ?M (workouts_query user_id s) page" if "fits user_id"
    using ok that by (simp add: get_workouts_eq offset_limit_is_page)
  show "\<exists>page. get_exercises workout_id skip limit s = Inr page \<and>
      is_page ?N ?M (exercises_query workout_id s) page" if "fits workout_id"
    using ok that by (simp add: get_exercises_eq offset_limit_is_page)
  show "\<exists>page. get_meals user_id skip limit s = Inr page \<and>
      is_page ?N ?M (meals_query user_id s) page" if "fits user_id"
    using ok that by (simp add: get_meals_eq offset_limit_is_page)
next
  assume bad: "\<not> (sqlite_int (param_default 0 skip) \<and> sqlite_int (param_default 100 limit))"
  then show "get_users skip limit s = Inl OverflowError"
    "get_workouts user_id skip limit s = Inl OverflowError"
    "get_exercises workout_id skip limit s = Inl OverflowError"
    "get_meals user_id skip limit s = Inl OverflowError"
    by (simp_all add: get_users_eq get_workouts_eq get_exercises_eq get_meals_eq)
next
  assume "\<not> fits user_id"
  then show "get_workouts user_id skip limit s = Inl OverflowError"
    "get_meals user_id skip limit s = Inl OverflowError"
    by (simp_all add: get_workouts_eq get_meals_eq)
next
  assume "\<not> fits workout_id"
  then show "get_exercises workout_id skip limit s = Inl OverflowError"
    by (simp add: get_exercises_eq)
qed (simp_all add: get_users_def get_workouts_def get_exercises_def get_meals_def
    param_default_def)

theorem pagination_witness:
  "sqlite_int 0 \<and> sqlite_int 1 \<and> sqlite_int 5 \<and> sqlite_int (- 1) \<and> fits (Some 2) \<and>
   (\<exists>page. get_users (Some 1) (Some 1) sample_store = Inr page \<and>
      int (length page) \<le> 1 \<and> length page = 1 \<and> page ! 0 = bob) \<and>
   (\<exists>page. get_workouts (Some 2) (Some 1) (Some 5) sample_store = Inr page \<and> page = []) \<and>
   (\<exists>page. get_meals None (Some 0) (Some (- 1)) sample_store = Inr page \<and> length page = 2) \<and>
   get_users None (Some (2 ^ 63)) sample_store = Inl OverflowError \<and>
   get_users None None sample_store = get_users (Some 0) (Some 100) sample_store"
proof -
  have r: "sqlite_int 0" "sqlite_int 1" "sqlite_int 5" "sqlite_int (- 1)" "fits (Some 2)"
    "fits None" "\<not> sqlite_int (2 ^ 63)"
    by (simp_all add: sqlite_int_def fits_def)
  from pagination [of "Some 1" "Some 1" sample_store None None] r
  obtain us where us: "get_users (Some 1) (Some 1) sample_store = Inr us"
    "is_page 1 1 (users sample_store) us"
    by (auto simp add: param_default_def)
  from us(2) have "int (length us) \<le> 1 \<and> length us = 1 \<and> us ! 0 = bob"
    by (simp add: is_page_def sample_store_def)
  with us(1) have a: "\<exists>page. get_users (Some 1) (Some 1) sample_store = Inr page \<and>
      int (length page) \<le> 1 \<and> length page = 1 \<and> page ! 0 = bob"
    by simp
  have q: "workouts_query (Some 2) sample_store = [lift2]"
    by (simp add: workouts_query_def truthy_def sample_defs)
  from pagination [of "Some 1" "Some 5" sample_store "Some 2" None] r
  obtain ws where ws: "get_workouts (Some 2) (Some 1) (Some 5) sample_store = Inr ws"
    "is_page 1 5 (workouts_query (Some 2) sample_store) ws"
    by (auto simp add: param_default_def)
  from ws(2) have "ws = []"
    by (simp add: is_page_def q)
  with ws(1) have b: "\<exists>page. get_workouts (Some 2) (Some 1) (Some 5) sample_store = Inr page \<and>
      page = []"
    by simp
  from pagination [of "Some 0" "Some (- 1)" sample_store None None] r
  obtain ms where ms: "get_meals None (Some 0) (Some (- 1)) sample_store = Inr ms"
    "is_page 0 (- 1) (meals_query None sample_store) ms"
    by (auto simp add: param_default_def)
  from ms(2) have "length ms = 2"
    by (simp add: is_page_def meals_query_def truthy_def sample_store_def)
  with ms(1) have c: "\<exists>page. get_meals None (Some 0) (Some (- 1)) sample_store = Inr page \<and>
      length page = 2"
    by simp
  from pagination [of None "Some (2 ^ 63)" sample_store None None] r(7)
  have d: "get_users None (Some (2 ^ 63)) sample_store = Inl OverflowError"
    by (simp add: param_default_def)
  from pagination [of None None sample_store None None]
  have e: "get_users None None sample_store = get_users (Some 0) (Some 100) sample_store"
    by simp
  from r a b c d e show ?thesis
    by simp
qed

text \<open>
  Two requests at which the sentence without these conditions fails. With the limit
  \<open>-1\<close> the listing of two users returns both: more than the limit. With the offset
  \<open>2 ^ 63\<close>, beyond the two rows, the listing is not empty: it raises.
\<close>

theorem negative_limit_counterexample:
  "get_users (Some 0) (Some (- 1)) sample_store = Inr [ann, bob] \<and>
   \<not> int (length [ann, bob]) \<le> - 1 \<and>
   get_users (Some (2 ^ 63)) None sample_store = Inl OverflowError \<and>
   get_users (Some (2 ^ 63)) None sample_store \<noteq> Inr []"
  by (simp add: get_users_eq offset_limit_def param_default_def sqlite_int_def
      sample_store_def)

section \<open>Creating under a missing parent\<close>

lemma missing_key:
  "(\<forall>x \<in> set rows. column x \<noteq> v) \<Longrightarrow>
   first_by_key column v rows = (if sqlite_int v then Inr None else Inl OverflowError)"
  by (rule first_by_key_absent) (simp add: find_None_iff)

text \<open>
  C2. Creating a Workout or a Meal whose \<open>user_id\<close> is the id of no stored User, or an
  Exercise whose \<open>workout_id\<close> is the id of no stored Workout, inserts no row and leaves
  the store as it was. When the id fits 64 signed bits the handler raises the 404
  \<^verbatim>\<open>HTTPException\<close>; when it does not, the lookup of the parent raises
  \<^verbatim>\<open>OverflowError\<close>.
\<close>

theorem create_with_missing_parent:
  "((\<forall>x \<in> set (users s). u_id x \<noteq> wc_user_id workout) \<longrightarrow>
      create_workout workout s =
        (Inl (if sqlite_int (wc_user_id workout) then HTTPException 404 ''User not found''
              else OverflowError), s)) \<and>
   ((\<forall>x \<in> set (workouts s). w_id x \<noteq> ec_workout_id exercise) \<longrightarrow>
      create_exercise exercise s =
        (Inl (if sqlite_int (ec_workout_id exercise)
              then HTTPException 404 ''Workout not found'' else OverflowError), s)) \<and>
   ((\<forall>x \<in> set (users s). u_id x \<noteq> mc_user_id meal) \<longrightarrow>
      create_meal meal s =
        (Inl (if sqlite_int (mc_user_id meal) then HTTPException 404 ''User not found''
              else OverflowError), s))"
proof (intro conjI impI)
  assume "\<forall>x \<in> set (users s). u_id x \<noteq> wc_user_id workout"
  then have "first_by_key u_id (wc_user_id workout) (users s) =
      (if sqlite_int (wc_user_id workout) then Inr None else Inl OverflowError)"
    by (rule missing_key)
  then show "create_workout workout s =
      (Inl (if sqlite_int (wc_user_id workout) then HTTPException 404 ''User not found''
            else OverflowError), s)"
    by (simp add: create_workout_def)
next
  assume "\<forall>x \<in> set (workouts s). w_id x \<noteq> ec_workout_id exercise"
  then have "first_by_key w_id (ec_workout_id exercise) (workouts s) =
      (if sqlite_int (ec_workout_id exercise) then Inr None else Inl OverflowError)"
    by (rule missing_key)
  then show "create_exercise exercise s =
      (Inl (if sqlite_int (ec_workout_id exercise)
            then HTTPException 404 ''Workout not found'' else OverflowError), s)"
    by (simp add: create_exercise_def)
next
  assume "\<forall>x \<in> set (users s). u_id x \<noteq> mc_user_id meal"
  then have "first_by_key u_id (mc_user_id meal) (users s) =
      (if sqlite_int (mc_user_id meal) then Inr None else Inl OverflowError)"
    by (rule missing_key)
  then show "create_meal meal s =
      (Inl (if sqlite_int (mc_user_id meal) then HTTPException 404 ''User not found''
            else OverflowError), s)"
    by (simp add: create_meal_def)
qed

theorem create_with_missing_parent_witness:
  "create_workout \<lparr>wc_user_id = 3, wc_type = ''run'', wc_duration_min = 20,
       wc_distance_km = None, wc_avg_pace = None, wc_date = Date 2024 1 3,
       wc_is_starred = False\<rparr> sample_store =
     (Inl (HTTPException 404 ''User not found''), sample_store) \<and>
   create_exercise \<lparr>ec_workout_id = 7, ec_name = ''plank'', ec_sets = 1, ec_reps = 1,
       ec_weight = Finite 0\<rparr> sample_store =
     (Inl (HTTPException 404 ''Workout not found''), sample_store) \<and>
   create_meal \<lparr>mc_user_id = 2 ^ 63, mc_name = ''snack'', mc_calories = 100, mc_protein = Finite 1,
       mc_carbs = Finite 2, mc_fat = Finite 3, mc_date = Date 2024 1 3\<rparr> sample_store =
     (Inl OverflowError, sample_store)"
  using create_with_missing_parent [of sample_store
      "\<lparr>wc_user_id = 3, wc_type = ''run'', wc_duration_min = 20,
       wc_distance_km = None, wc_avg_pace = None, wc_date = Date 2024 1 3,
       wc_is_starred = False\<rparr>"
      "\<lparr>ec_workout_id = 7, ec_name = ''plank'', ec_sets = 1, ec_reps = 1,
       ec_weight = Finite 0\<rparr>"
      "\<lparr>mc_user_id = 2 ^ 63, mc_name = ''snack'', mc_calories = 100, mc_protein = Finite 1,
       mc_carbs = Finite 2, mc_fat = Finite 3, mc_date = Date 2024 1 3\<rparr>"]
  by (simp add: sample_defs sqlite_int_def)

text \<open>
  No stored user has the id \<open>2 ^ 63\<close>, and creating a workout for it does not end in the
  404: it raises \<^verbatim>\<open>OverflowError\<close>.
\<close>

theorem parent_id_overflow_counterexample:
  "2 ^ 63 \<notin> set (map u_id (users sample_store)) \<and>
   create_workout \<lparr>wc_user_id = 2 ^ 63, wc_type = ''run'', wc_duration_min = 20,
       wc_distance_km = None, wc_avg_pace = None, wc_date = Date 2024 1 3,
       wc_is_starred = False\<rparr> sample_store = (Inl OverflowError, sample_store) \<and>
   Inl OverflowError \<noteq> (Inl (HTTPException 404 ''User not found'') :: error + Workout)"
  by (simp add: create_workout_def first_by_key_def sqlite_int_def sample_defs)

section \<open>Partial update of a workout\<close>

lemma setattr_keys: "w_id (setattr i w) = w_id w \<and> w_user_id (setattr i w) = w_user_id w"
  by (cases i) simp_all

lemma fold_setattr_keys:
  "w_id (fold setattr items w) = w_id w \<and> w_user_id (fold setattr items w) = w_user_id w"
  by (induction items arbitrary: w) (simp_all add: setattr_keys)

lemma fold_setattr_dump:
  "fold setattr (map stored_item (model_dump_exclude_unset u)) w =
     w\<lparr>w_type := supplied_or (wu_type u) (w_type w),
       w_duration_min := supplied_or (wu_duration_min u) (w_duration_min w),
       w_distance_km := stored_or (wu_distance_km u) (w_distance_km w),
       w_avg_pace := stored_or (wu_avg_pace u) (w_avg_pace w),
       w_date := (case wu_date u of Unset \<Rightarrow> w_date w | Supplied _ \<Rightarrow> None),
       w_is_starred := supplied_or (wu_is_starred u) (w_is_starred w)\<rparr>"
  by (simp add: model_dump_exclude_unset_def dump_field_def supplied_or_def stored_or_def
      split: field.splits)

lemma not_null_after:
  assumes "workout_not_null w"
  shows "workout_not_null (fold setattr (map stored_item (model_dump_exclude_unset u)) w) \<longleftrightarrow> \<not> supplies_null u"
  using assms
  by (auto simp add: fold_setattr_dump workout_not_null_def supplies_null_def supplied_or_def
      split: field.splits)

lemma items_bind: "list_all item_binds (model_dump_exclude_unset u) \<longleftrightarrow> duration_fits u"
  by (simp add: model_dump_exclude_unset_def dump_field_def duration_fits_def
      split: field.splits option.splits)

lemma get_workout_find:
  "get_workout wid s = Inr w \<longleftrightarrow> find (\<lambda>x. w_id x = wid) (workouts s) = Some w"
  by (simp add: get_workout_def first_by_key_def split: option.splits)

lemma update_workout_accepted:
  assumes "find (\<lambda>x. w_id x = wid) (workouts s) = Some w"
    and "list_all item_binds (model_dump_exclude_unset u)"
    and "workout_not_null (fold setattr (map stored_item (model_dump_exclude_unset u)) w)"
  shows "update_workout wid u s =
     (Inr (fold setattr (map stored_item (model_dump_exclude_unset u)) w),
      s\<lparr>workouts := map (\<lambda>x. if w_id x = w_id w
                                then fold setattr (map stored_item (model_dump_exclude_unset u)) w else x)
                         (workouts s)\<rparr>)"
  using assms by (simp add: update_workout_def first_by_key_found Let_def)

lemma update_workout_refused:
  assumes "find (\<lambda>x. w_id x = wid) (workouts s) = Some w"
    and "list_all item_binds (model_dump_exclude_unset u)"
    and "\<not> workout_not_null (fold setattr (map stored_item (model_dump_exclude_unset u)) w)"
  shows "update_workout wid u s = (Inl IntegrityError, s)"
  using assms by (simp add: update_workout_def first_by_key_found Let_def)

lemma update_workout_overflow:
  assumes "find (\<lambda>x. w_id x = wid) (workouts s) = Some w"
    and "\<not> list_all item_binds (model_dump_exclude_unset u)"
  shows "update_workout wid u s = (Inl OverflowError, s)"
  using assms by (simp add: update_workout_def first_by_key_found Let_def)

text \<open>
  C4. For every stored Workout and every partial-update request against it: a field the
  request leaves out keeps its prior value, as a get of that Workout after the update
  shows. When the request supplies \<^verbatim>\<open>null\<close> for none of \<^verbatim>\<open>type\<close>, \<^verbatim>\<open>duration_min\<close> and
  \<^verbatim>\<open>date\<close>, and the \<^verbatim>\<open>duration_min\<close> it supplies fits 64 signed bits, the update succeeds
  and the get shows every supplied field at its supplied value, a distance or a pace that
  is not a number being kept as \<^verbatim>\<open>null\<close>. When the supplied
  \<^verbatim>\<open>duration_min\<close> does not fit, the commit raises \<^verbatim>\<open>OverflowError\<close>; otherwise, when
  the request supplies \<^verbatim>\<open>null\<close> for one of the three columns, the commit raises
  \<^verbatim>\<open>IntegrityError\<close>; in both cases the store is unchanged.
\<close>

theorem partial_update_frame:
  assumes stored: "get_workout wid s = Inr w" and row: "workout_not_null w"
  shows "(duration_fits u \<and> \<not> supplies_null u \<longrightarrow>
            (\<exists>w' s'. update_workout wid u s = (Inr w', s') \<and> get_workout wid s' = Inr w' \<and>
               w_type w' = supplied_or (wu_type u) (w_type w) \<and>
               w_duration_min w' = supplied_or (wu_duration_min u) (w_duration_min w) \<and>
               w_distance_km w' = stored_or (wu_distance_km u) (w_distance_km w) \<and>
               w_avg_pace w' = stored_or (wu_avg_pace u) (w_avg_pace w) \<and>
               w_date w' = w_date w \<and>
               w_is_starred w' = supplied_or (wu_is_starred u) (w_is_starred w) \<and>
               w_id w' = w_id w \<and> w_user_id w' = w_user_id w)) \<and>
         (duration_fits u \<and> supplies_null u \<longrightarrow>
            update_workout wid u s = (Inl IntegrityError, s)) \<and>
         (\<not> duration_fits u \<longrightarrow> update_workout wid u s = (Inl OverflowError, s)) \<and>
         (\<exists>w'. get_workout wid (snd (update_workout wid u s)) = Inr w' \<and>
            (wu_type u = Unset \<longrightarrow> w_type w' = w_type w) \<and>
            (wu_duration_min u = Unset \<longrightarrow> w_duration_min w' = w_duration_min w) \<and>
            (wu_distance_km u = Unset \<longrightarrow> w_distance_km w' = w_distance_km w) \<and>
            (wu_avg_pace u = Unset \<longrightarrow> w_avg_pace w' = w_avg_pace w) \<and>
            (wu_date u = Unset \<longrightarrow> w_date w' = w_date w) \<and>
            (wu_is_starred u = Unset \<longrightarrow> w_is_starred w' = w_is_starred w))"
proof -
  let ?w' = "fold setattr (map stored_item (model_dump_exclude_unset u)) w"
  let ?s' = "s\<lparr>workouts := map (\<lambda>x. if w_id x = w_id w then ?w' else x) (workouts s)\<rparr>"
  from stored have found: "find (\<lambda>x. w_id x = wid) (workouts s) = Some w"
    by (simp add: get_workout_find)
  then have wid: "w_id w = wid"
    by (auto dest: find_Some_hit)
  have keys: "w_id ?w' = wid" "w_user_id ?w' = w_user_id w"
    using wid by (simp_all add: fold_setattr_keys)
  have refetch: "get_workout wid ?s' = Inr ?w'"
    using find_map_replace [OF found, of ?w'] keys(1) wid by (simp add: get_workout_find)
  have accepted: "\<exists>w' s'. update_workout wid u s = (Inr w', s') \<and> get_workout wid s' = Inr w' \<and>
               w_type w' = supplied_or (wu_type u) (w_type w) \<and>
               w_duration_min w' = supplied_or (wu_duration_min u) (w_duration_min w) \<and>
               w_distance_km w' = stored_or (wu_distance_km u) (w_distance_km w) \<and>
               w_avg_pace w' = stored_or (wu_avg_pace u) (w_avg_pace w) \<and>
               w_date w' = w_date w \<and>
               w_is_starred w' = supplied_or (wu_is_starred u) (w_is_starred w) \<and>
               w_id w' = w_id w \<and> w_user_id w' = w_user_id w"
    if fit: "duration_fits u" and ok: "\<not> supplies_null u"
  proof (intro exI conjI)
    from fit have b: "list_all item_binds (model_dump_exclude_unset u)"
      by (simp add: items_bind)
    from ok row have "workout_not_null ?w'"
      by (simp add: not_null_after)
    then show "update_workout wid u s = (Inr ?w', ?s')"
      by (rule update_workout_accepted [OF found b])
    show "get_workout wid ?s' = Inr ?w'"
      by (rule refetch)
    from ok have "wu_date u = Unset"
      by (cases "wu_date u") (simp_all add: supplies_null_def)
    then show "w_date ?w' = w_date w"
      by (simp add: fold_setattr_dump)
  qed (simp_all add: fold_setattr_dump wid)
  have refused: "update_workout wid u s = (Inl IntegrityError, s)"
    if fit: "duration_fits u" and bad: "supplies_null u"
  proof -
    from fit have b: "list_all item_binds (model_dump_exclude_unset u)"
      by (simp add: items_bind)
    from bad row have "\<not> workout_not_null ?w'"
      by (simp add: not_null_after)
    then show ?thesis
      by (rule update_workout_refused [OF found b])
  qed
  have overflow: "update_workout wid u s = (Inl OverflowError, s)" if "\<not> duration_fits u"
    using that by (intro update_workout_overflow [OF found]) (simp add: items_bind)
  have frame: "\<exists>w'. get_workout wid (snd (update_workout wid u s)) = Inr w' \<and>
            (wu_type u = Unset \<longrightarrow> w_type w' = w_type w) \<and>
            (wu_duration_min u = Unset \<longrightarrow> w_duration_min w' = w_duration_min w) \<and>
            (wu_distance_km u = Unset \<longrightarrow> w_distance_km w' = w_distance_km w) \<and>
            (wu_avg_pace u = Unset \<longrightarrow> w_avg_pace w' = w_avg_pace w) \<and>
            (wu_date u = Unset \<longrightarrow> w_date w' = w_date w) \<and>
            (wu_is_starred u = Unset \<longrightarrow> w_is_starred w' = w_is_starred w)"
  proof (cases "duration_fits u \<and> \<not> supplies_null u")
    case False
    then have "update_workout wid u s = (Inl OverflowError, s) \<or>
        update_workout wid u s = (Inl IntegrityError, s)"
      using refused overflow by blast
    then show ?thesis
      using stored by auto
  next
    case True
    with accepted obtain w' s' where
      "update_workout wid u s = (Inr w', s')" "get_workout wid s' = Inr w'"
      "w_type w' = supplied_or (wu_type u) (w_type w)"
      "w_duration_min w' = supplied_or (wu_duration_min u) (w_duration_min w)"
      "w_distance_km w' = stored_or (wu_distance_km u) (w_distance_km w)"
      "w_avg_pace w' = stored_or (wu_avg_pace u) (w_avg_pace w)"
      "w_date w' = w_date w"
      "w_is_starred w' = supplied_or (wu_is_starred u) (w_is_starred w)"
      by blast
    then show ?thesis
      by (simp add: supplied_or_def stored_or_def)
  qed
  from accepted refused overflow frame show ?thesis
    by blast
qed

theorem partial_update_frame_witness:
  "get_workout 1 sample_store = Inr run1 \<and> workout_not_null run1 \<and>
   duration_fits star_and_rename \<and> \<not> supplies_null star_and_rename \<and>
   (\<exists>w' s'. update_workout 1 star_and_rename sample_store = (Inr w', s') \<and>
      get_workout 1 s' = Inr w' \<and>
      w_type w' = Some ''trail run'' \<and> w_duration_min w' = Some 30 \<and>
      w_distance_km w' = None \<and> w_avg_pace w' = None \<and>
      w_date w' = Some (Date 2024 1 1) \<and> w_is_starred w' = Some True) \<and>
   duration_fits nan_distance \<and> \<not> supplies_null nan_distance \<and>
   (\<exists>w' s'. update_workout 1 nan_distance sample_store = (Inr w', s') \<and>
      get_workout 1 s' = Inr w' \<and> w_distance_km w' = None \<and> w_type w' = Some ''run'') \<and>
   duration_fits null_type \<and> supplies_null null_type \<and>
   update_workout 1 null_type sample_store = (Inl IntegrityError, sample_store) \<and>
   \<not> duration_fits long_duration \<and>
   update_workout 1 long_duration sample_store = (Inl OverflowError, sample_store)"
proof -
  have a: "get_workout 1 sample_store = Inr run1"
    by (simp add: get_workout_def first_by_key_def sample_defs)
  have b: "workout_not_null run1"
    by (simp add: workout_not_null_def run1_def)
  have c: "\<not> supplies_null star_and_rename" "supplies_null null_type"
    "\<not> supplies_null nan_distance"
    by (simp_all add: supplies_null_def star_and_rename_def null_type_def nan_distance_def)
  have f: "duration_fits star_and_rename" "duration_fits null_type" "\<not> duration_fits long_duration"
    "duration_fits nan_distance"
    by (simp_all add: duration_fits_def star_and_rename_def null_type_def long_duration_def
        nan_distance_def sqlite_int_def)
  from partial_update_frame [OF a b, of star_and_rename] c(1) f(1)
  have d: "\<exists>w' s'. update_workout 1 star_and_rename sample_store = (Inr w', s') \<and>
      get_workout 1 s' = Inr w' \<and>
      w_type w' = Some ''trail run'' \<and> w_duration_min w' = Some 30 \<and>
      w_distance_km w' = None \<and> w_avg_pace w' = None \<and>
      w_date w' = Some (Date 2024 1 1) \<and> w_is_starred w' = Some True"
    by (auto simp add: supplied_or_def stored_or_def store_float_def star_and_rename_def
        run1_def)
  from partial_update_frame [OF a b, of nan_distance] c(3) f(4)
  have h: "\<exists>w' s'. update_workout 1 nan_distance sample_store = (Inr w', s') \<and>
      get_workout 1 s' = Inr w' \<and> w_distance_km w' = None \<and> w_type w' = Some ''run''"
    by (auto simp add: supplied_or_def stored_or_def store_float_def nan_distance_def
        run1_def)
  from partial_update_frame [OF a b, of null_type] c(2) f(2)
  have e: "update_workout 1 null_type sample_store = (Inl IntegrityError, sample_store)"
    by simp
  from partial_update_frame [OF a b, of long_duration] f(3)
  have g: "update_workout 1 long_duration sample_store = (Inl OverflowError, sample_store)"
    by simp
  from a b c d e f g h show ?thesis
    by simp
qed

text \<open>
  Three requests that supply a field which the update does not set to the supplied value.
  The first supplies \<^verbatim>\<open>null\<close> for \<^verbatim>\<open>type\<close>: it is refused, and the get after it still
  shows the prior type. The second supplies the duration \<open>2 ^ 63\<close>: it cannot be bound,
  and the get after it still shows the prior duration. The third supplies a distance that
  is not a number: the update succeeds, and the get after it shows no distance.
\<close>

theorem refused_update_counterexample:
  "get_workout 1 sample_store = Inr run1 \<and>
   wu_type null_type = Supplied None \<and>
   update_workout 1 null_type sample_store = (Inl IntegrityError, sample_store) \<and>
   get_workout 1 (snd (update_workout 1 null_type sample_store)) = Inr run1 \<and>
   w_type run1 = Some ''run'' \<and> w_type run1 \<noteq> None \<and>
   wu_duration_min long_duration = Supplied (Some (2 ^ 63)) \<and>
   update_workout 1 long_duration sample_store = (Inl OverflowError, sample_store) \<and>
   get_workout 1 (snd (update_workout 1 long_duration sample_store)) = Inr run1 \<and>
   w_duration_min run1 = Some 30 \<and> w_duration_min run1 \<noteq> Some (2 ^ 63) \<and>
   wu_distance_km nan_distance = Supplied (Some NaN) \<and>
   fst (update_workout 1 nan_distance sample_store) = Inr (run1\<lparr>w_distance_km := None\<rparr>) \<and>
   get_workout 1 (snd (update_workout 1 nan_distance sample_store)) =
     Inr (run1\<lparr>w_distance_km := None\<rparr>)"
  by (simp add: get_workout_def update_workout_def first_by_key_def
      model_dump_exclude_unset_def dump_field_def workout_not_null_def sqlite_int_def
      store_float_def null_type_def long_duration_def nan_distance_def sample_defs Let_def)

text \<open>
  C9. For every stored Workout and every partial-update request against it, the Workout
  read back after the update has the same id and the same \<open>user_id\<close>, and so has the row
  the update returns; the ids of the table are unchanged, and so are the owners of all its
  rows. The items of an update are the six of \<open>item\<close>, none of which assigns a key.
\<close>

theorem update_keeps_id_and_owner:
  assumes stored: "get_workout wid s = Inr w"
  shows "(\<exists>w'. get_workout wid (snd (update_workout wid u s)) = Inr w' \<and>
            w_id w' = w_id w \<and> w_user_id w' = w_user_id w) \<and>
         (\<forall>r. fst (update_workout wid u s) = Inr r \<longrightarrow>
            w_id r = w_id w \<and> w_user_id r = w_user_id w) \<and>
         map w_id (workouts (snd (update_workout wid u s))) = map w_id (workouts s) \<and>
         (distinct (map w_id (workouts s)) \<longrightarrow>
            map w_user_id (workouts (snd (update_workout wid u s))) =
            map w_user_id (workouts s))"
proof -
  let ?w' = "fold setattr (map stored_item (model_dump_exclude_unset u)) w"
  let ?s' = "s\<lparr>workouts := map (\<lambda>x. if w_id x = w_id w then ?w' else x) (workouts s)\<rparr>"
  from stored have found: "find (\<lambda>x. w_id x = wid) (workouts s) = Some w"
    by (simp add: get_workout_find)
  then have wid: "w_id w = wid" and mem: "w \<in> set (workouts s)"
    by (auto dest: find_Some_hit)
  have keys: "w_id ?w' = w_id w" "w_user_id ?w' = w_user_id w"
    by (simp_all add: fold_setattr_keys)
  consider (overflow) "\<not> list_all item_binds (model_dump_exclude_unset u)"
    | (refused) "list_all item_binds (model_dump_exclude_unset u)" "\<not> workout_not_null ?w'"
    | (accepted) "list_all item_binds (model_dump_exclude_unset u)" "workout_not_null ?w'"
    by blast
  then show ?thesis
  proof cases
    case overflow
    then have "update_workout wid u s = (Inl OverflowError, s)"
      by (rule update_workout_overflow [OF found])
    with stored show ?thesis
      by simp
  next
    case refused
    then have "update_workout wid u s = (Inl IntegrityError, s)"
      by (rule update_workout_refused [OF found])
    with stored show ?thesis
      by simp
  next
    case accepted
    then have upd: "update_workout wid u s = (Inr ?w', ?s')"
      by (rule update_workout_accepted [OF found])
    have "get_workout wid ?s' = Inr ?w'"
      using find_map_replace [OF found, of ?w'] keys(1) wid by (simp add: get_workout_find)
    moreover have "map w_id (workouts ?s') = map w_id (workouts s)"
      using keys(1) by (simp add: comp_def cong: map_cong)
    moreover have "map w_user_id (workouts ?s') = map w_user_id (workouts s)"
      if d: "distinct (map w_id (workouts s))"
    proof -
      have "w_user_id (if w_id x = w_id w then ?w' else x) = w_user_id x"
        if "x \<in> set (workouts s)" for x
        using distinct_key_eq [OF d that mem] keys(2) by auto
      then show ?thesis
        by (simp add: comp_def cong: map_cong)
    qed
    ultimately show ?thesis
      using upd keys by simp
  qed
qed

theorem update_keeps_id_and_owner_witness:
  "get_workout 1 sample_store = Inr run1 \<and>
   (\<exists>w'. get_workout 1 (snd (update_workout 1 star_and_rename sample_store)) = Inr w' \<and>
      w_id w' = 1 \<and> w_user_id w' = 1) \<and>
   map w_id (workouts (snd (update_workout 1 star_and_rename sample_store))) = [1, 2] \<and>
   map w_user_id (workouts (snd (update_workout 1 star_and_rename sample_store))) = [1, 2]"
proof -
  have a: "get_workout 1 sample_store = Inr run1"
    by (simp add: get_workout_def first_by_key_def sample_defs)
  have b: "distinct (map w_id (workouts sample_store))"
    by (simp add: sample_defs)
  from update_keeps_id_and_owner [OF a, of star_and_rename] a b show ?thesis
    by (simp add: sample_defs)
qed

section \<open>Creating users\<close>

lemma find_distinct_key:
  assumes "distinct (map k xs)" and "x \<in> set xs"
  shows "find (\<lambda>y. k y = k x) xs = Some x"
  using assms by (induction xs) (auto simp add: image_iff)

lemma filter_distinct_key:
  assumes "distinct (map k xs)" and "x \<in> set xs"
  shows "filter (\<lambda>y. k y = k x) xs = [x]"
  using assms
proof (induction xs)
  case Nil
  then show ?case by simp
next
  case (Cons y ys)
  show ?case
  proof (cases "y = x")
    case True
    with Cons.prems have "\<forall>z \<in> set ys. k z \<noteq> k x"
      by (auto simp add: image_iff)
    then have "filter (\<lambda>y. k y = k x) ys = []"
      by (simp add: filter_empty_conv)
    with True show ?thesis
      by simp
  next
    case False
    with Cons.prems have "x \<in> set ys" and "k y \<noteq> k x" and "distinct (map k ys)"
      by (auto simp add: image_iff)
    with Cons.IH show ?thesis
      by simp
  qed
qed

lemma find_present: "x \<in> set xs \<Longrightarrow> P x \<Longrightarrow> \<exists>y. find P xs = Some y"
  by (cases "find P xs") (auto simp add: find_None_iff)

lemma create_user_duplicate_email:
  assumes "u \<in> set (users s)" and "u_email u = uc_email user"
  shows "create_user user now s =
           (Inl (HTTPException 400 ''Email already registered''), s)"
proof -
  from assms obtain y where "find (\<lambda>x. u_email x = uc_email user) (users s) = Some y"
    using find_present [of u "users s" "\<lambda>x. u_email x = uc_email user"] by blast
  then show ?thesis
    by (simp add: create_user_def)
qed

lemma sample_store_ok: "constraints_ok sample_store"
  by (simp add: constraints_ok_def workout_not_null_def sample_defs)

lemma create_user_inserts:
  assumes "\<forall>x \<in> set (users s). u_email x \<noteq> uc_email user"
    and "uc_google_id user = None \<or> (\<forall>x \<in> set (users s). u_google_id x \<noteq> uc_google_id user)"
  shows "create_user user now s =
     (Inr \<lparr>u_id = next_id (map u_id (users s)), u_name = uc_name user,
           u_email = uc_email user, u_google_id = uc_google_id user,
           u_created_at = Some now\<rparr>,
      s\<lparr>users := users s @
         [\<lparr>u_id = next_id (map u_id (users s)), u_name = uc_name user,
           u_email = uc_email user, u_google_id = uc_google_id user,
           u_created_at = Some now\<rparr>]\<rparr>)"
proof -
  from assms(1) have "find (\<lambda>x. u_email x = uc_email user) (users s) = None"
    by (simp add: find_None_iff)
  with assms show ?thesis
    by (simp add: create_user_def user_unique_def Let_def)
qed

text \<open>
  C3. When the email of a create-user request is the email of a stored User, the handler
  raises the 400 \<^verbatim>\<open>HTTPException\<close> "Email already registered" and the store is as it
  was: the stored User is still returned by a get of its id, and it is the one row with
  that email.
\<close>

theorem duplicate_email_rejected:
  assumes ok: "constraints_ok s" and stored: "u \<in> set (users s)"
    and same: "u_email u = uc_email user"
  shows "create_user user now s =
           (Inl (HTTPException 400 ''Email already registered''), s) \<and>
         get_user (u_id u) (snd (create_user user now s)) = Inr u \<and>
         filter (\<lambda>x. u_email x = uc_email user) (users (snd (create_user user now s))) = [u]"
proof -
  have rejected: "create_user user now s =
      (Inl (HTTPException 400 ''Email already registered''), s)"
    using stored same by (rule create_user_duplicate_email)
  from ok have ids: "distinct (map u_id (users s))" and emails: "distinct (map u_email (users s))"
    by (simp_all add: constraints_ok_def)
  have "get_user (u_id u) s = Inr u"
    using find_distinct_key [OF ids stored] by (simp add: get_user_def first_by_key_def)
  moreover have "filter (\<lambda>x. u_email x = uc_email user) (users s) = [u]"
    using filter_distinct_key [OF emails stored] same by simp
  ultimately show ?thesis
    using rejected by simp
qed

theorem duplicate_email_rejected_witness:
  "constraints_ok sample_store \<and> ann \<in> set (users sample_store) \<and>
   u_email ann = uc_email req_ann \<and>
   create_user req_ann 1704240000 sample_store =
     (Inl (HTTPException 400 ''Email already registered''), sample_store) \<and>
   get_user 1 (snd (create_user req_ann 1704240000 sample_store)) = Inr ann \<and>
   filter (\<lambda>x. u_email x = ''ann@x.com'')
     (users (snd (create_user req_ann 1704240000 sample_store))) = [ann]"
proof -
  have a: "ann \<in> set (users sample_store)"
    by (simp add: sample_store_def)
  have b: "u_email ann = uc_email req_ann"
    by (simp add: ann_def req_ann_def)
  have c: "u_id ann = 1" "uc_email req_ann = ''ann@x.com''"
    by (simp_all add: ann_def req_ann_def)
  note inst = duplicate_email_rejected [OF sample_store_ok a b, of 1704240000, unfolded c]
  from inst sample_store_ok a b show ?thesis
    by blast
qed

text \<open>
  C5. What the handler does when the \<^verbatim>\<open>google_id\<close> of a create-user request is that of a
  stored User and the email is new: nothing checks the \<^verbatim>\<open>google_id\<close> before the insert,
  so the UNIQUE constraint refuses the row at the commit and the handler raises
  \<^verbatim>\<open>IntegrityError\<close>, not a 400 \<^verbatim>\<open>HTTPException\<close> with a message. No row is inserted.
\<close>

theorem duplicate_google_id_integrity_error:
  assumes fresh: "\<forall>x \<in> set (users s). u_email x \<noteq> uc_email user"
    and taken: "u \<in> set (users s)" "uc_google_id user = Some g" "u_google_id u = Some g"
  shows "create_user user now s = (Inl IntegrityError, s)"
proof -
  from fresh have "find (\<lambda>x. u_email x = uc_email user) (users s) = None"
    by (simp add: find_None_iff)
  moreover from taken have "\<not> user_unique
      \<lparr>u_id = next_id (map u_id (users s)), u_name = uc_name user, u_email = uc_email user,
       u_google_id = uc_google_id user, u_created_at = Some now\<rparr> (users s)"
    by (auto simp add: user_unique_def)
  ultimately show ?thesis
    by (simp add: create_user_def Let_def)
qed

theorem duplicate_google_id_integrity_error_witness:
  "uc_email req_upper \<notin> set (map u_email (users sample_store)) \<and>
   ann \<in> set (users sample_store) \<and> uc_google_id req_upper = Some ''g-ann'' \<and>
   u_google_id ann = Some ''g-ann'' \<and>
   create_user req_upper 1704240000 sample_store = (Inl IntegrityError, sample_store) \<and>
   create_user req_upper 1704240000 sample_store \<noteq>
     (Inl (HTTPException 400 ''Email already registered''), sample_store)"
proof -
  have a: "\<forall>x \<in> set (users sample_store). u_email x \<noteq> uc_email req_upper"
    by (simp add: sample_store_def ann_def bob_def req_upper_def)
  have b: "ann \<in> set (users sample_store)"
    by (simp add: sample_store_def)
  have c: "uc_google_id req_upper = Some ''g-ann''" "u_google_id ann = Some ''g-ann''"
    by (simp_all add: req_upper_def ann_def)
  have d: "uc_email req_upper \<notin> set (map u_email (users sample_store))"
    by (simp add: sample_store_def ann_def bob_def req_upper_def)
  from duplicate_google_id_integrity_error [OF a b c, of 1704240000] b c d show ?thesis
    by simp
qed

text \<open>
  C10. The duplicate check compares emails by string equality. Two create-user
  requests whose emails are unequal as strings, neither of them stored yet, and whose
  \<^verbatim>\<open>google_id\<close>s are absent or differ from each other and from every stored one, both
  succeed, and the table has two more rows, with the two emails.
\<close>

theorem distinct_emails_both_created:
  assumes differ: "uc_email a \<noteq> uc_email b"
    and fresh: "\<forall>x \<in> set (users s). u_email x \<noteq> uc_email a \<and> u_email x \<noteq> uc_email b"
    and ga: "uc_google_id a = None \<or> (\<forall>x \<in> set (users s). u_google_id x \<noteq> uc_google_id a)"
    and gb: "uc_google_id b = None \<or> (\<forall>x \<in> set (users s). u_google_id x \<noteq> uc_google_id b)"
    and gab: "uc_google_id a = None \<or> uc_google_id a \<noteq> uc_google_id b"
  shows "\<exists>ua ub s1 s2. create_user a t1 s = (Inr ua, s1) \<and> create_user b t2 s1 = (Inr ub, s2) \<and>
           users s2 = users s @ [ua, ub] \<and> u_email ua = uc_email a \<and> u_email ub = uc_email b \<and>
           length (users s2) = length (users s) + 2"
proof -
  let ?ua = "\<lparr>u_id = next_id (map u_id (users s)), u_name = uc_name a, u_email = uc_email a,
              u_google_id = uc_google_id a, u_created_at = Some t1\<rparr>"
  let ?s1 = "s\<lparr>users := users s @ [?ua]\<rparr>"
  let ?ub = "\<lparr>u_id = next_id (map u_id (users ?s1)), u_name = uc_name b, u_email = uc_email b,
              u_google_id = uc_google_id b, u_created_at = Some t2\<rparr>"
  let ?s2 = "?s1\<lparr>users := users ?s1 @ [?ub]\<rparr>"
  have first: "create_user a t1 s = (Inr ?ua, ?s1)"
    using fresh ga by (intro create_user_inserts) auto
  have "\<forall>x \<in> set (users ?s1). u_email x \<noteq> uc_email b"
    using fresh differ by auto
  moreover have "uc_google_id b = None \<or> (\<forall>x \<in> set (users ?s1). u_google_id x \<noteq> uc_google_id b)"
    using gb gab by auto
  ultimately have second: "create_user b t2 ?s1 = (Inr ?ub, ?s2)"
    by (rule create_user_inserts)
  have "users ?s2 = users s @ [?ua, ?ub]"
    by simp
  with first second show ?thesis
    by (intro exI [of _ ?ua] exI [of _ ?ub] exI [of _ ?s1] exI [of _ ?s2]) simp
qed

theorem distinct_emails_both_created_witness:
  "uc_email req_ann \<noteq> uc_email req_upper_plain \<and>
   (\<exists>ua ub s1 s2. create_user req_ann 1 empty_store = (Inr ua, s1) \<and>
      create_user req_upper_plain 2 s1 = (Inr ub, s2) \<and>
      users s2 = [ua, ub] \<and> u_email ua = ''ann@x.com'' \<and> u_email ub = ''Ann@x.com'' \<and>
      length (users s2) = 2)"
proof -
  have d: "uc_email req_ann \<noteq> uc_email req_upper_plain"
    by (simp add: req_ann_def req_upper_plain_def)
  have e: "users empty_store = []"
    by (simp add: empty_store_def)
  have fresh: "\<forall>x \<in> set (users empty_store).
      u_email x \<noteq> uc_email req_ann \<and> u_email x \<noteq> uc_email req_upper_plain"
    by (simp add: e)
  have ga: "uc_google_id req_ann = None \<or>
      (\<forall>x \<in> set (users empty_store). u_google_id x \<noteq> uc_google_id req_ann)"
    by (simp add: e)
  have gb: "uc_google_id req_upper_plain = None \<or>
      (\<forall>x \<in> set (users empty_store). u_google_id x \<noteq> uc_google_id req_upper_plain)"
    by (simp add: e)
  have gab: "uc_google_id req_ann = None \<or> uc_google_id req_ann \<noteq> uc_google_id req_upper_plain"
    by (simp add: req_ann_def req_upper_plain_def)
  have m: "uc_email req_ann = ''ann@x.com''" "uc_email req_upper_plain = ''Ann@x.com''"
    by (simp_all add: req_ann_def req_upper_plain_def)
  have n: "[] @ xs = xs" "length ([]::User list) + 2 = 2" for xs :: "User list"
    by simp_all
  note inst = distinct_emails_both_created [OF d fresh ga gb gab, of 1 2, unfolded e m n]
  from inst d show ?thesis
    by blast
qed

text \<open>
  Unequal emails alone are not enough: when the two requests carry the same
  \<^verbatim>\<open>google_id\<close>, the second creation fails and one row exists afterward.
\<close>

theorem shared_google_id_counterexample:
  "uc_email req_ann \<noteq> uc_email req_upper \<and>
   fst (create_user req_ann 1 empty_store) =
     Inr \<lparr>u_id = 1, u_name = ''Ann'', u_email = ''ann@x.com'', u_google_id = Some ''g-ann'',
          u_created_at = Some 1\<rparr> \<and>
   create_user req_upper 2 (snd (create_user req_ann 1 empty_store)) =
     (Inl IntegrityError, snd (create_user req_ann 1 empty_store)) \<and>
   length (users (snd (create_user req_upper 2 (snd (create_user req_ann 1 empty_store))))) = 1"
proof -
  let ?ua = "\<lparr>u_id = 1, u_name = ''Ann'', u_email = ''ann@x.com'', u_google_id = Some ''g-ann'',
              u_created_at = Some 1\<rparr>"
  let ?s1 = "\<lparr>users = [?ua], workouts = [], exercises = [], meals = []\<rparr>"
  have first: "create_user req_ann 1 empty_store = (Inr ?ua, ?s1)"
    by (simp add: create_user_def user_unique_def next_id_def empty_store_def req_ann_def
        Let_def)
  have second: "create_user req_upper 2 ?s1 = (Inl IntegrityError, ?s1)"
    by (simp add: create_user_def user_unique_def req_upper_def Let_def)
  have "uc_email req_ann \<noteq> uc_email req_upper"
    by (simp add: req_ann_def req_upper_def)
  with first second show ?thesis
    by simp
qed

section \<open>Cascading deletes\<close>

lemma fold_db_delete_exercise:
  "fold db_delete_exercise es s =
     s\<lparr>exercises := filter (\<lambda>x. e_id x \<notin> e_id ` set es) (exercises s)\<rparr>"
proof (induction es arbitrary: s)
  case Nil
  then show ?case by simp
next
  case (Cons e es)
  let ?s1 = "db_delete_exercise e s"
  have "fold db_delete_exercise (e # es) s = fold db_delete_exercise es ?s1"
    by simp
  also have "\<dots> = ?s1\<lparr>exercises := filter (\<lambda>x. e_id x \<notin> e_id ` set es) (exercises ?s1)\<rparr>"
    by (rule Cons.IH)
  also have "\<dots> = s\<lparr>exercises := filter (\<lambda>x. e_id x \<notin> e_id ` set (e # es)) (exercises s)\<rparr>"
    by (auto simp add: db_delete_exercise_def intro: filter_cong)
  finally show ?case .
qed

lemma fold_db_delete_meal:
  "fold db_delete_meal ms s = s\<lparr>meals := filter (\<lambda>x. m_id x \<notin> m_id ` set ms) (meals s)\<rparr>"
proof (induction ms arbitrary: s)
  case Nil
  then show ?case by simp
next
  case (Cons m ms)
  let ?s1 = "db_delete_meal m s"
  have "fold db_delete_meal (m # ms) s = fold db_delete_meal ms ?s1"
    by simp
  also have "\<dots> = ?s1\<lparr>meals := filter (\<lambda>x. m_id x \<notin> m_id ` set ms) (meals ?s1)\<rparr>"
    by (rule Cons.IH)
  also have "\<dots> = s\<lparr>meals := filter (\<lambda>x. m_id x \<notin> m_id ` set (m # ms)) (meals s)\<rparr>"
    by (auto simp add: db_delete_meal_def intro: filter_cong)
  finally show ?case .
qed

lemma db_delete_workout_eq:
  "db_delete_workout w s =
     s\<lparr>exercises := filter (\<lambda>x. e_id x \<notin> e_id ` {e \<in> set (exercises s). e_workout_id e = w_id w})
                        (exercises s),
       workouts := filter (\<lambda>x. w_id x \<noteq> w_id w) (workouts s)\<rparr>"
  by (simp add: db_delete_workout_def fold_db_delete_exercise Let_def)

lemma db_delete_workout_tables:
  "users (db_delete_workout w s) = users s"
  "meals (db_delete_workout w s) = meals s"
  "workouts (db_delete_workout w s) = filter (\<lambda>x. w_id x \<noteq> w_id w) (workouts s)"
  "set (exercises (db_delete_workout w s)) \<subseteq> set (exercises s)"
  by (auto simp add: db_delete_workout_eq)

lemma db_delete_workout_children:
  "e \<in> set (exercises (db_delete_workout w s)) \<Longrightarrow> e_workout_id e \<noteq> w_id w"
  by (auto simp add: db_delete_workout_eq)

lemma fold_db_delete_workout_tables:
  "users (fold db_delete_workout ws s) = users s"
  "meals (fold db_delete_workout ws s) = meals s"
  "workouts (fold db_delete_workout ws s) =
     filter (\<lambda>x. w_id x \<notin> w_id ` set ws) (workouts s)"
  "set (exercises (fold db_delete_workout ws s)) \<subseteq> set (exercises s)"
proof (induction ws arbitrary: s)
  case Nil
  {
    case 1 show ?case by simp
  next
    case 2 show ?case by simp
  next
    case 3 show ?case by simp
  next
    case 4 show ?case by simp
  }
next
  case (Cons w ws)
  {
    case 1 show ?case by (simp add: Cons.IH db_delete_workout_tables)
  next
    case 2 show ?case by (simp add: Cons.IH db_delete_workout_tables)
  next
    case 3
    have "filter (\<lambda>x. w_id x \<notin> w_id ` set ws) (filter (\<lambda>x. w_id x \<noteq> w_id w) (workouts s)) =
        filter (\<lambda>x. w_id x \<notin> w_id ` set (w # ws)) (workouts s)"
      by (auto intro: filter_cong)
    then show ?case by (simp add: Cons.IH db_delete_workout_tables)
  next
    case 4
    have "set (exercises (fold db_delete_workout ws (db_delete_workout w s))) \<subseteq>
        set (exercises (db_delete_workout w s))"
      by (rule Cons.IH)
    also have "\<dots> \<subseteq> set (exercises s)"
      by (rule db_delete_workout_tables)
    finally show ?case by simp
  }
qed

lemma fold_db_delete_workout_children:
  "e \<in> set (exercises (fold db_delete_workout ws s)) \<Longrightarrow> e_workout_id e \<notin> w_id ` set ws"
proof (induction ws arbitrary: s)
  case Nil
  then show ?case by simp
next
  case (Cons w ws)
  from Cons.prems have in_rest: "e \<in> set (exercises (fold db_delete_workout ws (db_delete_workout w s)))"
    by simp
  then have "e_workout_id e \<notin> w_id ` set ws"
    by (rule Cons.IH)
  moreover from in_rest fold_db_delete_workout_tables(4) [of ws "db_delete_workout w s"]
  have "e \<in> set (exercises (db_delete_workout w s))"
    by (rule subsetD [rotated])
  then have "e_workout_id e \<noteq> w_id w"
    by (rule db_delete_workout_children)
  ultimately show ?case
    by simp
qed

lemma db_delete_user_tables:
  "users (db_delete_user u s) = filter (\<lambda>x. u_id x \<noteq> u_id u) (users s)"
  "workouts (db_delete_user u s) =
     filter (\<lambda>x. w_id x \<notin> w_id ` {w \<in> set (workouts s). w_user_id w = u_id u}) (workouts s)"
  "meals (db_delete_user u s) =
     filter (\<lambda>x. m_id x \<notin> m_id ` {m \<in> set (meals s). m_user_id m = u_id u}) (meals s)"
  "set (exercises (db_delete_user u s)) \<subseteq> set (exercises s)"
  by (simp_all add: db_delete_user_def Let_def fold_db_delete_meal fold_db_delete_workout_tables)

lemma db_delete_user_children:
  assumes "e \<in> set (exercises (db_delete_user u s))"
    and "w \<in> set (workouts s)" and "w_user_id w = u_id u"
  shows "e_workout_id e \<noteq> w_id w"
proof -
  let ?ws = "filter (\<lambda>w. w_user_id w = u_id u) (workouts s)"
  from assms(1) have "e \<in> set (exercises (fold db_delete_workout ?ws s))"
    by (simp add: db_delete_user_def Let_def fold_db_delete_meal)
  then have "e_workout_id e \<notin> w_id ` set ?ws"
    by (rule fold_db_delete_workout_children)
  with assms(2,3) show ?thesis
    by auto
qed

lemma db_delete_user_no_orphans:
  assumes "no_orphans s"
  shows "no_orphans (db_delete_user u s)"
  unfolding no_orphans_def
proof (intro conjI ballI)
  fix w
  assume w: "w \<in> set (workouts (db_delete_user u s))"
  then have ws: "w \<in> set (workouts s)" and "w_user_id w \<noteq> u_id u"
    by (auto simp add: db_delete_user_tables)
  moreover from assms ws obtain x where "x \<in> set (users s)" "u_id x = w_user_id w"
    by (auto simp add: no_orphans_def)
  ultimately show "\<exists>x \<in> set (users (db_delete_user u s)). u_id x = w_user_id w"
    by (auto simp add: db_delete_user_tables)
next
  fix e
  assume e: "e \<in> set (exercises (db_delete_user u s))"
  with db_delete_user_tables(4) [of u s] have "e \<in> set (exercises s)"
    by (rule subsetD)
  with assms obtain w where w: "w \<in> set (workouts s)" "w_id w = e_workout_id e"
    by (auto simp add: no_orphans_def)
  have "w_id w \<noteq> w_id d" if "d \<in> set (workouts s)" "w_user_id d = u_id u" for d
    using db_delete_user_children [OF e that] w(2) by simp
  with w(1) have "w \<in> set (workouts (db_delete_user u s))"
    by (auto simp add: db_delete_user_tables)
  with w(2) show "\<exists>w \<in> set (workouts (db_delete_user u s)). w_id w = e_workout_id e"
    by blast
next
  fix m
  assume m: "m \<in> set (meals (db_delete_user u s))"
  then have ms: "m \<in> set (meals s)" and "m_user_id m \<noteq> u_id u"
    by (auto simp add: db_delete_user_tables)
  moreover from assms ms obtain x where "x \<in> set (users s)" "u_id x = m_user_id m"
    by (auto simp add: no_orphans_def)
  ultimately show "\<exists>x \<in> set (users (db_delete_user u s)). u_id x = m_user_id m"
    by (auto simp add: db_delete_user_tables)
qed

lemma delete_user_found:
  assumes "u \<in> set (users s)"
  shows "delete_user (u_id u) s = (Inr (), db_delete_user u s)"
proof -
  from assms obtain y where y: "find (\<lambda>x. u_id x = u_id u) (users s) = Some y"
    using find_present [of u "users s" "\<lambda>x. u_id x = u_id u"] by blast
  then have "u_id y = u_id u"
    by (auto dest: find_Some_hit)
  then have "db_delete_user y s = db_delete_user u s"
    by (simp add: db_delete_user_def)
  with y show ?thesis
    by (simp add: delete_user_def first_by_key_def)
qed

text \<open>
  C1. Deleting a stored User succeeds and leaves no User with that id, no Workout whose
  \<open>user_id\<close> is that id, no Exercise whose \<open>workout_id\<close> is the id of a Workout that
  belonged to the User, and no Meal whose \<open>user_id\<close> is that id; and when the store had no
  orphan row before the delete, it has none after it.
\<close>

theorem delete_user_cascades:
  assumes stored: "u \<in> set (users s)"
  shows "\<exists>s'. delete_user (u_id u) s = (Inr (), s') \<and>
     (\<forall>x \<in> set (users s'). u_id x \<noteq> u_id u) \<and>
     (\<forall>w \<in> set (workouts s'). w_user_id w \<noteq> u_id u) \<and>
     (\<forall>w \<in> set (workouts s). w_user_id w = u_id u \<longrightarrow>
        w \<notin> set (workouts s') \<and> (\<forall>e \<in> set (exercises s'). e_workout_id e \<noteq> w_id w)) \<and>
     (\<forall>m \<in> set (meals s'). m_user_id m \<noteq> u_id u) \<and>
     (no_orphans s \<longrightarrow> no_orphans s')"
proof (intro exI conjI ballI impI)
  let ?s' = "db_delete_user u s"
  show "delete_user (u_id u) s = (Inr (), ?s')"
    using stored by (rule delete_user_found)
  show "u_id x \<noteq> u_id u" if "x \<in> set (users ?s')" for x
    using that by (simp add: db_delete_user_tables)
  show gone: "w_user_id w \<noteq> u_id u" if "w \<in> set (workouts ?s')" for w
    using that by (auto simp add: db_delete_user_tables)
  show "w \<notin> set (workouts ?s')" if "w \<in> set (workouts s)" "w_user_id w = u_id u" for w
    using that gone by blast
  show "e_workout_id e \<noteq> w_id w"
    if "w \<in> set (workouts s)" "w_user_id w = u_id u" "e \<in> set (exercises ?s')" for w e
    using that(3,1,2) by (rule db_delete_user_children)
  show "m_user_id m \<noteq> u_id u" if "m \<in> set (meals ?s')" for m
    using that by (auto simp add: db_delete_user_tables)
  show "no_orphans ?s'" if "no_orphans s"
    using that by (rule db_delete_user_no_orphans)
qed

theorem delete_user_cascades_witness:
  "ann \<in> set (users sample_store) \<and> no_orphans sample_store \<and>
   delete_user 1 sample_store =
     (Inr (), \<lparr>users = [bob], workouts = [lift2], exercises = [squat], meals = [dinner]\<rparr>) \<and>
   no_orphans \<lparr>users = [bob], workouts = [lift2], exercises = [squat], meals = [dinner]\<rparr>"
proof -
  have a: "ann \<in> set (users sample_store)"
    by (simp add: sample_store_def)
  have b: "no_orphans sample_store"
    by (simp add: no_orphans_def sample_defs)
  have c: "u_id ann = 1"
    by (simp add: ann_def)
  have d: "delete_user 1 sample_store =
     (Inr (), \<lparr>users = [bob], workouts = [lift2], exercises = [squat], meals = [dinner]\<rparr>)"
    by (simp add: delete_user_def first_by_key_def db_delete_user_def db_delete_workout_def
        db_delete_exercise_def db_delete_meal_def Let_def sample_defs)
  from delete_user_cascades [OF a, unfolded c d] b
  have "no_orphans \<lparr>users = [bob], workouts = [lift2], exercises = [squat], meals = [dinner]\<rparr>"
    by auto
  with a b d show ?thesis
    by simp
qed

section \<open>Every reachable store is consistent\<close>

text \<open>
  A fresh primary key is larger than every key of the table, so it is new; every handler
  keeps the constraints of the schema and leaves no orphan. Hence the hypotheses
  \<open>constraints_ok\<close> and \<open>no_orphans\<close> above hold of every store the service can be in.
\<close>

lemma fold_max_ge_init: "x \<le> fold max xs (x::int)"
proof (induction xs arbitrary: x)
  case Nil
  show ?case by simp
next
  case (Cons a xs)
  have "x \<le> max a x"
    by simp
  also have "\<dots> \<le> fold max xs (max a x)"
    by (rule Cons.IH)
  finally show ?case
    by simp
qed

lemma fold_max_ge_elem: "y \<in> set xs \<Longrightarrow> y \<le> fold max xs (x::int)"
proof (induction xs arbitrary: x)
  case Nil
  then show ?case by simp
next
  case (Cons a xs)
  show ?case
  proof (cases "y = a")
    case True
    have "a \<le> max a x"
      by simp
    also have "\<dots> \<le> fold max xs (max a x)"
      by (rule fold_max_ge_init)
    finally show ?thesis
      using True by simp
  next
    case False
    with Cons.prems have "y \<in> set xs"
      by simp
    then have "y \<le> fold max xs (max a x)"
      by (rule Cons.IH)
    then show ?thesis
      by simp
  qed
qed

lemma next_id_fresh: "next_id ids \<notin> set ids"
proof (cases ids)
  case Nil
  then show ?thesis by simp
next
  case (Cons x xs)
  have "y < next_id ids" if "y \<in> set ids" for y
  proof -
    from that Cons have "y \<le> fold max xs x"
      using fold_max_ge_init [of x xs] fold_max_ge_elem [of y xs x] by auto
    with Cons show ?thesis
      by (simp add: next_id_def)
  qed
  then show ?thesis
    by blast
qed

lemma key_in_map: "k \<in> set (map f xs) \<longleftrightarrow> (\<exists>q \<in> set xs. f q = k)"
  by auto

lemma distinct_filter_map_filter:
  "distinct (filter P (map f xs)) \<Longrightarrow> distinct (filter P (map f (filter Q xs)))"
  by (induction xs) auto

lemma fold_db_delete_workout_exercises:
  "\<exists>Q. exercises (fold db_delete_workout ws s) = filter Q (exercises s)"
proof (induction ws arbitrary: s)
  case Nil
  have "exercises s = filter (\<lambda>_. True) (exercises s)"
    by simp
  then show ?case
    by (simp del: filter_True) blast
next
  case (Cons w ws)
  from Cons.IH [of "db_delete_workout w s"] obtain Q where
    "exercises (fold db_delete_workout ws (db_delete_workout w s)) =
       filter Q (exercises (db_delete_workout w s))"
    by blast
  then have "exercises (fold db_delete_workout (w # ws) s) =
      filter (\<lambda>x. x \<in> set (filter Q (exercises (db_delete_workout w s)))) (exercises s)"
    by (auto simp add: db_delete_workout_eq intro: filter_cong)
  then show ?case
    by blast
qed

lemma db_delete_user_exercises: "\<exists>Q. exercises (db_delete_user u s) = filter Q (exercises s)"
  using fold_db_delete_workout_exercises [of "filter (\<lambda>w. w_user_id w = u_id u) (workouts s)" s]
  by (simp add: db_delete_user_def Let_def fold_db_delete_meal)

lemma db_delete_user_constraints:
  assumes "constraints_ok s"
  shows "constraints_ok (db_delete_user u s)"
proof -
  obtain Q where "exercises (db_delete_user u s) = filter Q (exercises s)"
    using db_delete_user_exercises by blast
  with assms show ?thesis
    by (simp add: constraints_ok_def db_delete_user_tables distinct_map_filter
        distinct_filter_map_filter)
qed

lemma db_delete_workout_constraints:
  assumes "constraints_ok s"
  shows "constraints_ok (db_delete_workout w s)"
  using assms by (simp add: constraints_ok_def db_delete_workout_eq distinct_map_filter)

lemma db_delete_workout_no_orphans:
  assumes "no_orphans s"
  shows "no_orphans (db_delete_workout w s)"
  unfolding no_orphans_def
proof (intro conjI ballI)
  fix x
  assume "x \<in> set (workouts (db_delete_workout w s))"
  then have "x \<in> set (workouts s)"
    by (simp add: db_delete_workout_tables)
  with assms show "\<exists>u \<in> set (users (db_delete_workout w s)). u_id u = w_user_id x"
    by (simp add: no_orphans_def db_delete_workout_tables)
next
  fix e
  assume e: "e \<in> set (exercises (db_delete_workout w s))"
  then have "e_workout_id e \<noteq> w_id w"
    by (rule db_delete_workout_children)
  moreover from e db_delete_workout_tables(4) [of w s] have "e \<in> set (exercises s)"
    by (rule subsetD [rotated])
  with assms obtain p where "p \<in> set (workouts s)" "w_id p = e_workout_id e"
    by (auto simp add: no_orphans_def)
  ultimately show "\<exists>p \<in> set (workouts (db_delete_workout w s)). w_id p = e_workout_id e"
    by (auto simp add: db_delete_workout_tables)
next
  fix m
  assume "m \<in> set (meals (db_delete_workout w s))"
  with assms show "\<exists>u \<in> set (users (db_delete_workout w s)). u_id u = m_user_id m"
    by (simp add: no_orphans_def db_delete_workout_tables)
qed

lemma create_user_consistent:
  assumes "consistent s"
  shows "consistent (snd (create_user user now s))"
proof (cases "find (\<lambda>x. u_email x = uc_email user) (users s)")
  case (Some a)
  with assms show ?thesis
    by (simp add: create_user_def)
next
  case None
  let ?u = "\<lparr>u_id = next_id (map u_id (users s)), u_name = uc_name user,
              u_email = uc_email user, u_google_id = uc_google_id user,
              u_created_at = Some now\<rparr>"
  show ?thesis
  proof (cases "user_unique ?u (users s)")
    case False
    with None assms show ?thesis
      by (simp add: create_user_def Let_def)
  next
    case True
    with None have s': "snd (create_user user now s) = s\<lparr>users := users s @ [?u]\<rparr>"
      by (simp add: create_user_def Let_def)
    have "u_id ?u \<notin> set (map u_id (users s))"
      using next_id_fresh [of "map u_id (users s)"] by simp
    moreover from True have "u_email ?u \<notin> set (map u_email (users s))"
      by (auto simp add: user_unique_def)
    moreover from True have "u_google_id ?u = None \<or> u_google_id ?u \<notin> set (map u_google_id (users s))"
      by (auto simp add: user_unique_def)
    ultimately have "constraints_ok (s\<lparr>users := users s @ [?u]\<rparr>)"
      using assms by (auto simp add: consistent_def constraints_ok_def)
    moreover have "no_orphans (s\<lparr>users := users s @ [?u]\<rparr>)"
      using assms by (auto simp add: consistent_def no_orphans_def)
    ultimately show ?thesis
      by (simp add: s' consistent_def)
  qed
qed

lemma delete_user_consistent:
  assumes "consistent s"
  shows "consistent (snd (delete_user user_id s))"
  using assms
  by (auto simp add: delete_user_def first_by_key_def consistent_def
      db_delete_user_constraints db_delete_user_no_orphans split: option.splits)

lemma delete_workout_consistent:
  assumes "consistent s"
  shows "consistent (snd (delete_workout workout_id s))"
  using assms
  by (auto simp add: delete_workout_def first_by_key_def consistent_def
      db_delete_workout_constraints db_delete_workout_no_orphans split: option.splits)

lemma create_workout_consistent:
  assumes "consistent s"
  shows "consistent (snd (create_workout workout s))"
proof (cases "find (\<lambda>x. u_id x = wc_user_id workout) (users s)")
  case None
  with assms show ?thesis
    by (simp add: create_workout_def first_by_key_def)
next
  case (Some user)
  let ?w = "\<lparr>w_id = next_id (map w_id (workouts s)), w_user_id = wc_user_id workout,
              w_type = Some (wc_type workout), w_duration_min = Some (wc_duration_min workout),
              w_distance_km = store_float (wc_distance_km workout),
              w_avg_pace = store_float (wc_avg_pace workout),
              w_date = Some (wc_date workout), w_is_starred = Some (wc_is_starred workout)\<rparr>"
  have nn: "workout_not_null ?w"
    by (simp add: workout_not_null_def)
  with Some have s': "snd (create_workout workout s) = s \<or>
      snd (create_workout workout s) = s\<lparr>workouts := workouts s @ [?w]\<rparr>"
    by (simp add: create_workout_def first_by_key_def Let_def)
  from Some have parent: "user \<in> set (users s)" "u_id user = wc_user_id workout"
    by (auto dest: find_Some_hit)
  have "w_id ?w \<notin> set (map w_id (workouts s))"
    using next_id_fresh [of "map w_id (workouts s)"] by simp
  with nn assms have "constraints_ok (s\<lparr>workouts := workouts s @ [?w]\<rparr>)"
    by (auto simp add: consistent_def constraints_ok_def)
  moreover from parent assms have "no_orphans (s\<lparr>workouts := workouts s @ [?w]\<rparr>)"
    by (auto simp add: consistent_def no_orphans_def)
  ultimately show ?thesis
    using s' assms by (auto simp add: consistent_def)
qed

lemma create_exercise_consistent:
  assumes "consistent s"
  shows "consistent (snd (create_exercise exercise s))"
proof (cases "find (\<lambda>x. w_id x = ec_workout_id exercise) (workouts s)")
  case None
  with assms show ?thesis
    by (simp add: create_exercise_def first_by_key_def)
next
  case (Some workout)
  let ?e = "\<lparr>e_id = next_id (map e_id (exercises s)), e_workout_id = ec_workout_id exercise,
              e_name = ec_name exercise, e_sets = ec_sets exercise,
              e_reps = ec_reps exercise, e_weight = ec_weight exercise\<rparr>"
  from Some have s': "snd (create_exercise exercise s) = s \<or>
      snd (create_exercise exercise s) = s\<lparr>exercises := exercises s @ [?e]\<rparr>"
    by (simp add: create_exercise_def first_by_key_def Let_def)
  from Some have parent: "workout \<in> set (workouts s)" "w_id workout = ec_workout_id exercise"
    by (auto dest: find_Some_hit)
  have "e_id ?e \<notin> set (map e_id (exercises s))"
    using next_id_fresh [of "map e_id (exercises s)"] by simp
  with assms have "constraints_ok (s\<lparr>exercises := exercises s @ [?e]\<rparr>)"
    by (auto simp add: consistent_def constraints_ok_def)
  moreover from parent assms have "no_orphans (s\<lparr>exercises := exercises s @ [?e]\<rparr>)"
    by (auto simp add: consistent_def no_orphans_def)
  ultimately show ?thesis
    using s' assms by (auto simp add: consistent_def)
qed

lemma create_meal_consistent:
  assumes "consistent s"
  shows "consistent (snd (create_meal meal s))"
proof (cases "find (\<lambda>x. u_id x = mc_user_id meal) (users s)")
  case None
  with assms show ?thesis
    by (simp add: create_meal_def first_by_key_def)
next
  case (Some user)
  let ?m = "\<lparr>m_id = next_id (map m_id (meals s)), m_user_id = mc_user_id meal,
              m_name = mc_name meal, m_calories = mc_calories meal,
              m_protein = mc_protein meal, m_carbs = mc_carbs meal,
              m_fat = mc_fat meal, m_date = mc_date meal\<rparr>"
  from Some have s': "snd (create_meal meal s) = s \<or>
      snd (create_meal meal s) = s\<lparr>meals := meals s @ [?m]\<rparr>"
    by (simp add: create_meal_def first_by_key_def Let_def)
  from Some have parent: "user \<in> set (users s)" "u_id user = mc_user_id meal"
    by (auto dest: find_Some_hit)
  have "m_id ?m \<notin> set (map m_id (meals s))"
    using next_id_fresh [of "map m_id (meals s)"] by simp
  with assms have "constraints_ok (s\<lparr>meals := meals s @ [?m]\<rparr>)"
    by (auto simp add: consistent_def constraints_ok_def)
  moreover from parent assms have "no_orphans (s\<lparr>meals := meals s @ [?m]\<rparr>)"
    by (auto simp add: consistent_def no_orphans_def)
  ultimately show ?thesis
    using s' assms by (auto simp add: consistent_def)
qed

lemma delete_exercise_consistent:
  assumes "consistent s"
  shows "consistent (snd (delete_exercise exercise_id s))"
  using assms
  by (auto simp add: delete_exercise_def first_by_key_def db_delete_exercise_def
      consistent_def constraints_ok_def no_orphans_def distinct_map_filter
      split: option.splits)

lemma delete_meal_consistent:
  assumes "consistent s"
  shows "consistent (snd (delete_meal meal_id s))"
  using assms
  by (auto simp add: delete_meal_def first_by_key_def db_delete_meal_def consistent_def
      constraints_ok_def no_orphans_def distinct_map_filter split: option.splits)

lemma update_workout_consistent:
  assumes "consistent s"
  shows "consistent (snd (update_workout workout_id upd s))"
proof (cases "find (\<lambda>x. w_id x = workout_id) (workouts s)")
  case None
  with assms show ?thesis
    by (simp add: update_workout_def first_by_key_def)
next
  case (Some w)
  let ?w' = "fold setattr (map stored_item (model_dump_exclude_unset upd)) w"
  let ?ws' = "map (\<lambda>x. if w_id x = w_id w then ?w' else x) (workouts s)"
  consider (overflow) "\<not> list_all item_binds (model_dump_exclude_unset upd)"
    | (refused) "list_all item_binds (model_dump_exclude_unset upd)" "\<not> workout_not_null ?w'"
    | (accepted) "list_all item_binds (model_dump_exclude_unset upd)" "workout_not_null ?w'"
    by blast
  then show ?thesis
  proof cases
    case overflow
    then have "update_workout workout_id upd s = (Inl OverflowError, s)"
      by (rule update_workout_overflow [OF Some])
    with assms show ?thesis
      by simp
  next
    case refused
    then have "update_workout workout_id upd s = (Inl IntegrityError, s)"
      by (rule update_workout_refused [OF Some])
    with assms show ?thesis
      by simp
  next
    case accepted
    then have True: "workout_not_null ?w'"
      by simp
    from accepted have s': "snd (update_workout workout_id upd s) = s\<lparr>workouts := ?ws'\<rparr>"
      by (simp add: update_workout_accepted [OF Some])
    from Some have mem: "w \<in> set (workouts s)"
      by (auto dest: find_Some_hit)
    have keys: "w_id ?w' = w_id w" "w_user_id ?w' = w_user_id w"
      by (simp_all add: fold_setattr_keys)
    have ids: "map w_id ?ws' = map w_id (workouts s)"
      using keys(1) by (simp add: comp_def cong: map_cong)
    have rows: "x = ?w' \<or> x \<in> set (workouts s)" if "x \<in> set ?ws'" for x
      using that by auto
    have ids': "map (w_id \<circ> (\<lambda>x. if w_id x = w_id w then ?w' else x)) (workouts s) =
        map w_id (workouts s)"
      using ids by simp
    have "workout_not_null x" if "x \<in> set ?ws'" for x
      using rows [OF that] True assms by (auto simp add: consistent_def constraints_ok_def)
    then have "\<forall>x \<in> set (workouts (s\<lparr>workouts := ?ws'\<rparr>)). workout_not_null x"
      by simp
    with assms have "constraints_ok (s\<lparr>workouts := ?ws'\<rparr>)"
      unfolding consistent_def constraints_ok_def by (simp add: ids')
    moreover have "no_orphans (s\<lparr>workouts := ?ws'\<rparr>)"
      unfolding no_orphans_def
    proof (intro conjI ballI)
      fix x
      assume "x \<in> set (workouts (s\<lparr>workouts := ?ws'\<rparr>))"
      then have "x = ?w' \<or> x \<in> set (workouts s)"
        using rows by simp
      then obtain y where y: "y \<in> set (workouts s)" "w_user_id y = w_user_id x"
        using mem keys(2) by auto
      from assms y(1) have "\<exists>u \<in> set (users s). u_id u = w_user_id y"
        by (simp add: consistent_def no_orphans_def)
      with y(2) show "\<exists>u \<in> set (users (s\<lparr>workouts := ?ws'\<rparr>)). u_id u = w_user_id x"
        by simp
    next
      fix e
      assume "e \<in> set (exercises (s\<lparr>workouts := ?ws'\<rparr>))"
      then have "e \<in> set (exercises s)"
        by simp
      with assms obtain p where "p \<in> set (workouts s)" "w_id p = e_workout_id e"
        unfolding consistent_def no_orphans_def by blast
      then have "e_workout_id e \<in> set (map w_id (workouts s))"
        unfolding key_in_map by blast
      then have "e_workout_id e \<in> set (map w_id ?ws')"
        by (simp only: ids)
      then have "\<exists>q \<in> set ?ws'. w_id q = e_workout_id e"
        by (simp only: key_in_map)
      then show "\<exists>p \<in> set (workouts (s\<lparr>workouts := ?ws'\<rparr>)). w_id p = e_workout_id e"
        by simp
    next
      fix m
      assume "m \<in> set (meals (s\<lparr>workouts := ?ws'\<rparr>))"
      with assms show "\<exists>u \<in> set (users (s\<lparr>workouts := ?ws'\<rparr>)). u_id u = m_user_id m"
        by (auto simp add: consistent_def no_orphans_def)
    qed
    ultimately show ?thesis
      by (simp add: s' consistent_def)
  qed
qed

theorem reachable_consistent: "reachable s \<Longrightarrow> constraints_ok s \<and> no_orphans s"
proof -
  assume "reachable s"
  then have "consistent s"
  proof (induction rule: reachable.induct)
    case r_empty
    show ?case
      by (simp add: consistent_def constraints_ok_def no_orphans_def empty_store_def)
  qed (simp_all add: create_user_consistent delete_user_consistent create_workout_consistent
      update_workout_consistent delete_workout_consistent create_exercise_consistent
      delete_exercise_consistent create_meal_consistent delete_meal_consistent)
  then show ?thesis
    by (simp add: consistent_def)
qed

text \<open>
  The sample store is one of them: eight create requests build it from the empty database,
  with the ids 1 and 2 that the store hands out.
\<close>

lemma sample_store_reachable: "reachable sample_store"
proof -
  let ?s1 = "empty_store\<lparr>users := [ann]\<rparr>"
  let ?s2 = "?s1\<lparr>users := [ann, bob]\<rparr>"
  let ?s3 = "?s2\<lparr>workouts := [run1]\<rparr>"
  let ?s4 = "?s3\<lparr>workouts := [run1, lift2]\<rparr>"
  let ?s5 = "?s4\<lparr>exercises := [pushup]\<rparr>"
  let ?s6 = "?s5\<lparr>exercises := [pushup, squat]\<rparr>"
  let ?s7 = "?s6\<lparr>meals := [lunch]\<rparr>"
  let ?s8 = "?s7\<lparr>meals := [lunch, dinner]\<rparr>"
  have 1: "snd (create_user req_ann 1704067200 empty_store) = ?s1"
    by (simp add: create_user_def user_unique_def next_id_def empty_store_def req_ann_def
        ann_def Let_def)
  have 2: "snd (create_user \<lparr>uc_name = ''Bob'', uc_email = ''bob@x.com'', uc_google_id = None\<rparr>
      1704153600 ?s1) = ?s2"
    by (simp add: create_user_def user_unique_def next_id_def empty_store_def ann_def bob_def
        Let_def)
  have 3: "snd (create_workout \<lparr>wc_user_id = 1, wc_type = ''run'', wc_duration_min = 30,
      wc_distance_km = Some (Finite 5), wc_avg_pace = None, wc_date = Date 2024 1 1,
      wc_is_starred = False\<rparr> ?s2) = ?s3"
    by (simp add: create_workout_def first_by_key_def binds_def sqlite_int_def
        workout_not_null_def store_float_def next_id_def empty_store_def ann_def bob_def
        run1_def Let_def)
  have 4: "snd (create_workout \<lparr>wc_user_id = 2, wc_type = ''lift'', wc_duration_min = 45,
      wc_distance_km = None, wc_avg_pace = None, wc_date = Date 2024 1 2,
      wc_is_starred = True\<rparr> ?s3) = ?s4"
    by (simp add: create_workout_def first_by_key_def binds_def sqlite_int_def
        workout_not_null_def store_float_def next_id_def empty_store_def ann_def bob_def
        run1_def lift2_def Let_def)
  have 5: "snd (create_exercise \<lparr>ec_workout_id = 1, ec_name = ''pushup'', ec_sets = 3,
      ec_reps = 10, ec_weight = Finite 0\<rparr> ?s4) = ?s5"
    by (simp add: create_exercise_def first_by_key_def binds_def sqlite_int_def next_id_def
        empty_store_def run1_def lift2_def pushup_def Let_def)
  have 6: "snd (create_exercise \<lparr>ec_workout_id = 2, ec_name = ''squat'', ec_sets = 5,
      ec_reps = 5, ec_weight = Finite 80\<rparr> ?s5) = ?s6"
    by (simp add: create_exercise_def first_by_key_def binds_def sqlite_int_def next_id_def
        empty_store_def run1_def lift2_def pushup_def squat_def Let_def)
  have 7: "snd (create_meal \<lparr>mc_user_id = 1, mc_name = ''lunch'', mc_calories = 600,
      mc_protein = Finite 30, mc_carbs = Finite 70, mc_fat = Finite 20, mc_date = Date 2024 1 1\<rparr> ?s6) = ?s7"
    by (simp add: create_meal_def first_by_key_def binds_def sqlite_int_def next_id_def
        empty_store_def ann_def bob_def lunch_def Let_def)
  have 8: "snd (create_meal \<lparr>mc_user_id = 2, mc_name = ''dinner'', mc_calories = 800,
      mc_protein = Finite 40, mc_carbs = Finite 90, mc_fat = Finite 30, mc_date = Date 2024 1 2\<rparr> ?s7) = ?s8"
    by (simp add: create_meal_def first_by_key_def binds_def sqlite_int_def next_id_def
        empty_store_def ann_def bob_def lunch_def dinner_def Let_def)
  have "reachable ?s1"
    using r_create_user [OF r_empty, of req_ann 1704067200] by (simp only: 1)
  then have "reachable ?s2"
    using r_create_user [of ?s1] by (simp only: 2 [symmetric])
  then have "reachable ?s3"
    using r_create_workout [of ?s2] by (simp only: 3 [symmetric])
  then have "reachable ?s4"
    using r_create_workout [of ?s3] by (simp only: 4 [symmetric])
  then have "reachable ?s5"
    using r_create_exercise [of ?s4] by (simp only: 5 [symmetric])
  then have "reachable ?s6"
    using r_create_exercise [of ?s5] by (simp only: 6 [symmetric])
  then have "reachable ?s7"
    using r_create_meal [of ?s6] by (simp only: 7 [symmetric])
  then have "reachable ?s8"
    using r_create_meal [of ?s7] by (simp only: 8 [symmetric])
  moreover have "?s8 = sample_store"
    by (simp add: sample_store_def empty_store_def)
  ultimately show ?thesis
    by simp
qed

end
